theory Spec2Isabelle
  imports Complex_Main "HOL-Library.Char_ord" "HOL-Library.List_Lexorder"
begin

section \<open>The OneTalk router as functions on an explicit store\<close>

text \<open>
  The two classes of the router, \<open>OneTalkSystem\<close> (onetalk_multi_user_system.py) and
  \<open>OneTalkPhoneManager\<close> (onetalk_phone_manager.py), keep all their state in one SQLite
  file (both default to \<open>onetalk_system.db\<close>). The model threads that file through every
  method as a value of type \<open>store\<close>: one list of rows per table, in insertion (rowid)
  order.

  Conventions of the embedding:
  \<^item> a nullable TEXT column or a parameter defaulting to \<open>None\<close> is a \<open>string option\<close>;
    \<open>None\<close> is SQL NULL, which no \<open>=\<close> comparison matches;
  \<^item> strings are byte lists (UTF-8), compared as SQLite's BINARY collation compares
    them; the case mappings \<open>str.upper\<close>, \<open>str.lower\<close> and \<open>str.title\<close> are modelled on
    ASCII letters and leave every other byte alone;
  \<^item> INTEGER columns and \<open>int\<close> parameters are \<open>int\<close>; values are taken to fit SQLite's
    64-bit integers;
  \<^item> what the code draws from its environment is an explicit argument: the fresh
    \<open>uuid4\<close> identifier, the UTC timestamp and the local date \<open>today\<close>;
  \<^item> \<open>ORDER BY\<close> is a stable insertion sort of the selected rows by the comparator of
    the clause (rows that tie keep table order, which SQL leaves open), and
    \<open>LIMIT 1\<close> with \<open>fetchone\<close> takes the head of the sorted rows;
  \<^item> every method opens a connection of its own, and each statement acts on the store
    at once. A method that writes while its caller holds an uncommitted write on another
    connection cannot take the write lock: \<open>sqlite3\<close> raises \<open>OperationalError\<close>
    (database is locked). The one place where this happens is \<open>route_incoming_call\<close>,
    which calls \<open>increment_phone_usage\<close> between its \<open>INSERT\<close> and its \<open>commit\<close>;
  \<^item> the columns \<open>created_at\<close> and \<open>department_breakdown\<close>, which no modelled
    statement reads or writes, are left out, and so are the webhook post and the Markdown
    log, which do not touch the store;
  \<^item> a raised exception is a value \<open>Inl e\<close>; the store is then the one before the call:
    what the method wrote before the exception was not committed.
\<close>

subsection \<open>Python and SQL primitives\<close>

text \<open>Truthiness of an optional string: \<open>None\<close> and the empty string are false.\<close>

definition truthy :: "string option \<Rightarrow> bool" where
  "truthy x = (case x of None \<Rightarrow> False | Some t \<Rightarrow> t \<noteq> [])"

text \<open>The substring test \<open>sub in text\<close>.\<close>

fun starts_with :: "string \<Rightarrow> string \<Rightarrow> bool" where
  "starts_with [] t = True"
| "starts_with (a # as) [] = False"
| "starts_with (a # as) (b # bs) = (a = b \<and> starts_with as bs)"

fun py_in :: "string \<Rightarrow> string \<Rightarrow> bool" where
  "py_in sub [] = (sub = [])"
| "py_in sub (c # cs) = (starts_with sub (c # cs) \<or> py_in sub cs)"

definition ascii_lower :: "char \<Rightarrow> char" where
  "ascii_lower c =
     (case map_of (zip ''ABCDEFGHIJKLMNOPQRSTUVWXYZ'' ''abcdefghijklmnopqrstuvwxyz'') c of
        Some l \<Rightarrow> l | None \<Rightarrow> c)"

definition ascii_upper :: "char \<Rightarrow> char" where
  "ascii_upper c =
     (case map_of (zip ''abcdefghijklmnopqrstuvwxyz'' ''ABCDEFGHIJKLMNOPQRSTUVWXYZ'') c of
        Some u \<Rightarrow> u | None \<Rightarrow> c)"

definition py_lower :: "string \<Rightarrow> string" where
  "py_lower t = map ascii_lower t"

definition py_upper :: "string \<Rightarrow> string" where
  "py_upper t = map ascii_upper t"

definition is_cased :: "char \<Rightarrow> bool" where
  "is_cased c = (c \<in> set ''abcdefghijklmnopqrstuvwxyzABCDEFGHIJKLMNOPQRSTUVWXYZ'')"

text \<open>\<open>str.title\<close>: a letter after a letter is lowered, any other letter is raised.\<close>

fun title_from :: "bool \<Rightarrow> string \<Rightarrow> string" where
  "title_from prev [] = []"
| "title_from prev (c # cs) =
     (if is_cased c
      then (if prev then ascii_lower c else ascii_upper c) # title_from True cs
      else c # title_from False cs)"

definition py_title :: "string \<Rightarrow> string" where
  "py_title t = title_from False t"

text \<open>\<open>ORDER BY\<close> as a stable insertion sort, \<open>fetchone\<close> as the head of the result.\<close>

fun insert_by :: "('a \<Rightarrow> 'a \<Rightarrow> bool) \<Rightarrow> 'a \<Rightarrow> 'a list \<Rightarrow> 'a list" where
  "insert_by le x [] = [x]"
| "insert_by le x (y # ys) = (if le x y then x # y # ys else y # insert_by le x ys)"

definition order_by :: "('a \<Rightarrow> 'a \<Rightarrow> bool) \<Rightarrow> 'a list \<Rightarrow> 'a list" where
  "order_by le rows = foldr (insert_by le) rows []"

definition fetchone :: "'a list \<Rightarrow> 'a option" where
  "fetchone rows = (case rows of [] \<Rightarrow> None | r # _ \<Rightarrow> Some r)"

datatype error = IntegrityError | OperationalError

subsection \<open>Tables\<close>

record user =
  u_id :: string
  u_name :: string
  u_department :: string
  u_phone_number :: "string option"
  u_role :: string
  u_status :: string

text \<open>The column \<open>phone_numbers\<close> holds a JSON array; the model keeps the list.\<close>

record department =
  d_id :: string
  d_name :: string
  d_lead_user_id :: "string option"
  d_phone_numbers :: "string list"

record communication =
  c_id :: string
  c_timestamp :: string
  c_from_number :: string
  c_to_number :: string
  c_user_id :: "string option"
  c_department_id :: "string option"
  c_type :: string
  c_content :: string
  c_status :: string
  c_duration :: "int option"

record routing_rule =
  rr_id :: string
  rr_priority :: int
  rr_condition_type :: string
  rr_condition_value :: string
  rr_target_department :: string
  rr_target_user :: "string option"
  rr_is_active :: bool

record phone =
  p_id :: string
  p_phone_number :: string
  p_department_id :: "string option"
  p_user_id :: "string option"
  p_status :: string
  p_type :: string
  p_priority :: int
  p_max_concurrent_calls :: int
  p_current_calls :: int

record call_route =
  cr_id :: string
  cr_from_number :: string
  cr_to_number :: string
  cr_routed_to_number :: "string option"
  cr_routed_to_user :: "string option"
  cr_department :: "string option"
  cr_routing_reason :: "string option"
  cr_timestamp :: string
  cr_call_duration :: "int option"
  cr_status :: string

record phone_stat =
  ps_id :: string
  ps_phone_number :: string
  ps_date :: string
  ps_total_calls :: int
  ps_total_sms :: int
  ps_total_duration :: int

record store =
  users :: "user list"
  departments :: "department list"
  communications :: "communication list"
  routing_rules :: "routing_rule list"
  phone_numbers :: "phone list"
  call_routing :: "call_route list"
  phone_stats :: "phone_stat list"

definition empty_store :: store where
  "empty_store = \<lparr>users = [], departments = [], communications = [], routing_rules = [],
     phone_numbers = [], call_routing = [], phone_stats = []\<rparr>"

subsection \<open>OneTalkSystem: users and departments\<close>

text \<open>\<open>INSERT OR REPLACE INTO departments\<close>: the row with the same primary key goes.\<close>

definition create_department ::
  "store \<Rightarrow> string \<Rightarrow> string \<Rightarrow> string option \<Rightarrow> string list option \<Rightarrow> store" where
  "create_department s dept_id name lead_user_id phone_nums =
     s\<lparr>departments :=
         filter (\<lambda>d. d_id d \<noteq> dept_id) (departments s) @
         [\<lparr>d_id = dept_id, d_name = name, d_lead_user_id = lead_user_id,
           d_phone_numbers = (case phone_nums of None \<Rightarrow> [] | Some ns \<Rightarrow> ns)\<rparr>]\<rparr>"

definition replace_underscores :: "string \<Rightarrow> string" where
  "replace_underscores t = map (\<lambda>c. if c = CHR ''_'' then CHR '' '' else c) t"

definition update_department_membership :: "store \<Rightarrow> string \<Rightarrow> string \<Rightarrow> store" where
  "update_department_membership s dept user_id =
     (case fetchone (filter (\<lambda>d. d_id d = dept) (departments s)) of
        Some _ \<Rightarrow> s
      | None \<Rightarrow> create_department s dept (py_title (replace_underscores dept)) None None)"

text \<open>
  \<open>add_user\<close>: \<open>INSERT OR REPLACE INTO users (id, name, department, phone_number, role)\<close>.
  A row with the same primary key is deleted and the new row is appended; \<open>status\<close> is
  not among the columns, so the new row takes the column default. The method always
  returns its success message, the store is the only result that varies.
\<close>

definition add_user ::
  "store \<Rightarrow> string \<Rightarrow> string \<Rightarrow> string \<Rightarrow> string option \<Rightarrow> string \<Rightarrow> store" where
  "add_user s user_id name dept phone_number role =
     update_department_membership
       (s\<lparr>users :=
            filter (\<lambda>u. u_id u \<noteq> user_id) (users s) @
            [\<lparr>u_id = user_id, u_name = name, u_department = dept,
              u_phone_number = phone_number, u_role = role, u_status = ''available''\<rparr>]\<rparr>)
       dept user_id"

text \<open>\<open>UPDATE users SET status = ? WHERE id = ?\<close>; the id may be \<open>None\<close>.\<close>

definition update_user_status :: "store \<Rightarrow> string option \<Rightarrow> string \<Rightarrow> store" where
  "update_user_status s user_id new_status =
     s\<lparr>users := map (\<lambda>u. if Some (u_id u) = user_id then u\<lparr>u_status := new_status\<rparr> else u)
                    (users s)\<rparr>"

text \<open>\<open>ORDER BY role DESC, name ASC\<close>.\<close>

definition user_order :: "user \<Rightarrow> user \<Rightarrow> bool" where
  "user_order a b = (u_role b < u_role a \<or> (u_role a = u_role b \<and> u_name a \<le> u_name b))"

definition available_in :: "string option \<Rightarrow> user \<Rightarrow> bool" where
  "available_in dept u = (Some (u_department u) = dept \<and> u_status u = ''available'')"

text \<open>
  \<open>find_available_user\<close>. The caller \<open>classify_incoming_communication\<close> can pass a
  department read from a nullable column, so the department is optional here.
\<close>

definition find_available_user ::
  "store \<Rightarrow> string option \<Rightarrow> string option \<Rightarrow> string option" where
  "find_available_user s dept preferred_user =
     (if truthy preferred_user \<and>
         fetchone (filter (\<lambda>u. Some (u_id u) = preferred_user \<and> available_in dept u) (users s))
           \<noteq> None
      then preferred_user
      else (case fetchone (order_by user_order (filter (available_in dept) (users s))) of
              None \<Rightarrow> None
            | Some r \<Rightarrow> Some (u_id r)))"

subsection \<open>OneTalkSystem: routing rules and classification\<close>

definition add_routing_rule ::
  "store \<Rightarrow> string \<Rightarrow> string \<Rightarrow> string \<Rightarrow> string \<Rightarrow> string option \<Rightarrow> int \<Rightarrow> error + store" where
  "add_routing_rule s rule_id condition_type condition_value target_department target_user prio =
     (if rule_id \<in> set (map rr_id (routing_rules s)) then Inl IntegrityError
      else Inr (s\<lparr>routing_rules := routing_rules s @
                  [\<lparr>rr_id = rule_id, rr_priority = prio, rr_condition_type = condition_type,
                    rr_condition_value = condition_value,
                    rr_target_department = target_department, rr_target_user = target_user,
                    rr_is_active = True\<rparr>]\<rparr>))"

definition check_department_condition :: "string \<Rightarrow> string \<Rightarrow> bool" where
  "check_department_condition condition_value from_number =
     py_in (py_lower condition_value) (py_lower from_number)"

text \<open>The \<open>for\<close> loop of \<open>apply_routing_rules\<close> over the fetched rows.\<close>

fun rules_loop :: "routing_rule list \<Rightarrow> string \<Rightarrow> string \<Rightarrow> string option \<times> string option" where
  "rules_loop [] from_number to_number = (None, None)"
| "rules_loop (r # rs) from_number to_number =
     (if rr_condition_type r = ''phone_pattern'' then
        (if py_in (rr_condition_value r) from_number \<or> py_in (rr_condition_value r) to_number
         then (Some (rr_target_department r), rr_target_user r)
         else rules_loop rs from_number to_number)
      else if rr_condition_type r = ''time_based'' then rules_loop rs from_number to_number
      else if rr_condition_type r = ''department'' then
        (if check_department_condition (rr_condition_value r) from_number
         then (Some (rr_target_department r), rr_target_user r)
         else rules_loop rs from_number to_number)
      else rules_loop rs from_number to_number)"

text \<open>\<open>WHERE is_active = TRUE ORDER BY priority ASC\<close>.\<close>

definition rule_order :: "routing_rule \<Rightarrow> routing_rule \<Rightarrow> bool" where
  "rule_order a b = (rr_priority a \<le> rr_priority b)"

definition fetch_rules :: "store \<Rightarrow> routing_rule list" where
  "fetch_rules s = order_by rule_order (filter rr_is_active (routing_rules s))"

definition apply_routing_rules ::
  "store \<Rightarrow> string \<Rightarrow> string \<Rightarrow> string \<Rightarrow> string option \<times> string option" where
  "apply_routing_rules s from_number to_number message_type =
     rules_loop (fetch_rules s) from_number to_number"

text \<open>
  \<open>find_existing_customer\<close>: the rows naming the number, grouped by
  \<open>(department_id, user_id)\<close>, ordered by \<open>COUNT(*) DESC, timestamp DESC\<close>. The groups
  are listed in the order of their last row, and the bare column \<open>timestamp\<close> of a
  group is read from the group's first row; SQL fixes neither.
\<close>

definition comm_key :: "communication \<Rightarrow> string option \<times> string option" where
  "comm_key c = (c_department_id c, c_user_id c)"

definition customer_groups ::
  "store \<Rightarrow> string \<Rightarrow> ((string option \<times> string option) \<times> nat \<times> string) list" where
  "customer_groups s phone_number =
     (let rows = filter (\<lambda>c. c_from_number c = phone_number \<or> c_to_number c = phone_number)
                   (communications s)
      in map (\<lambda>k. (k, length (filter (\<lambda>c. comm_key c = k) rows),
                    (case fetchone (filter (\<lambda>c. comm_key c = k) rows) of
                       None \<Rightarrow> [] | Some c \<Rightarrow> c_timestamp c)))
             (remdups (map comm_key rows)))"

definition group_order ::
  "(string option \<times> string option) \<times> nat \<times> string \<Rightarrow>
   (string option \<times> string option) \<times> nat \<times> string \<Rightarrow> bool" where
  "group_order a b =
     (fst (snd b) < fst (snd a) \<or>
      (fst (snd a) = fst (snd b) \<and> snd (snd b) \<le> snd (snd a)))"

definition find_existing_customer ::
  "store \<Rightarrow> string \<Rightarrow> (string option \<times> string option) option" where
  "find_existing_customer s phone_number =
     (case fetchone (order_by group_order (customer_groups s phone_number)) of
        None \<Rightarrow> None
      | Some g \<Rightarrow> Some (fst g))"

definition any_word_in :: "string list \<Rightarrow> string \<Rightarrow> bool" where
  "any_word_in ws content = list_ex (\<lambda>w. py_in w content) ws"

definition default_classification ::
  "store \<Rightarrow> string \<Rightarrow> string \<Rightarrow> string \<Rightarrow> string option \<times> string option" where
  "default_classification s from_number to_number content =
     (case find_existing_customer s from_number of
        Some existing \<Rightarrow> existing
      | None \<Rightarrow>
          (let content_lower = py_lower content in
           if any_word_in [''credit'', ''loan'', ''financing'', ''approval''] content_lower
           then (Some ''credit_analysis'', None)
           else if any_word_in [''transport'', ''vehicle'', ''shipping'', ''delivery''] content_lower
           then (Some ''vehicle_transport'', None)
           else if any_word_in [''sales'', ''buy'', ''purchase'', ''deal''] content_lower
           then (Some ''sales'', None)
           else (Some ''customer_service'', None)))"

text \<open>\<open>INSERT INTO communications\<close>: a used primary key raises.\<close>

definition create_communication_record ::
  "store \<Rightarrow> string \<Rightarrow> string \<Rightarrow> string \<Rightarrow> string \<Rightarrow> string option \<Rightarrow> string option \<Rightarrow>
   string \<Rightarrow> string \<Rightarrow> error + store" where
  "create_communication_record s comm_id timestamp from_number to_number user_id dept_id
       msg_type content =
     (if comm_id \<in> set (map c_id (communications s)) then Inl IntegrityError
      else Inr (s\<lparr>communications := communications s @
                  [\<lparr>c_id = comm_id, c_timestamp = timestamp, c_from_number = from_number,
                    c_to_number = to_number, c_user_id = user_id, c_department_id = dept_id,
                    c_type = msg_type, c_content = content, c_status = ''active'',
                    c_duration = None\<rparr>]\<rparr>))"

text \<open>\<open>route_communication\<close>: of its three steps only the status update is on the store.\<close>

definition route_communication ::
  "store \<Rightarrow> string \<Rightarrow> string option \<Rightarrow> string option \<Rightarrow> string \<Rightarrow> string \<Rightarrow> store" where
  "route_communication s comm_id user_id dept msg_type content =
     (if msg_type = ''call'' then update_user_status s user_id ''busy'' else s)"

record classification =
  communication_id :: string
  assigned_user :: "string option"
  department_of :: "string option"
  routing_method :: string

definition classify_incoming_communication ::
  "store \<Rightarrow> string \<Rightarrow> string \<Rightarrow> string \<Rightarrow> string \<Rightarrow> string \<Rightarrow> string \<Rightarrow>
   error + classification \<times> store" where
  "classify_incoming_communication s comm_id timestamp from_number to_number message_type content =
     (let (rule_dept, rule_user) = apply_routing_rules s from_number to_number message_type;
          (target_dept, target_user) =
             (if \<not> truthy rule_dept
              then default_classification s from_number to_number content
              else (rule_dept, rule_user));
          assigned = find_available_user s target_dept target_user
      in case create_communication_record s comm_id timestamp from_number to_number assigned
                target_dept message_type content of
           Inl e \<Rightarrow> Inl e
         | Inr s1 \<Rightarrow>
             Inr (\<lparr>communication_id = comm_id, assigned_user = assigned,
                    department_of = target_dept,
                    routing_method = (if truthy target_dept then ''rules'' else ''default'')\<rparr>,
                  route_communication s1 comm_id assigned target_dept message_type content))"

subsection \<open>OneTalkPhoneManager\<close>

text \<open>
  \<open>update_phone_stats\<close> and \<open>increment_phone_usage\<close> start with
  \<open>INSERT OR IGNORE INTO phone_stats (id, phone_number, date)\<close>, the id being
  \<open>f"{phone_number}_{today}"\<close>: the row is skipped when its primary key or its
  \<open>UNIQUE(phone_number, date)\<close> pair is taken.
\<close>

definition insert_or_ignore_stat :: "store \<Rightarrow> string \<Rightarrow> string \<Rightarrow> store" where
  "insert_or_ignore_stat s phone_number today =
     (if list_ex (\<lambda>t. ps_id t = phone_number @ ''_'' @ today \<or>
                        (ps_phone_number t = phone_number \<and> ps_date t = today)) (phone_stats s)
      then s
      else s\<lparr>phone_stats := phone_stats s @
               [\<lparr>ps_id = phone_number @ ''_'' @ today, ps_phone_number = phone_number,
                 ps_date = today, ps_total_calls = 0, ps_total_sms = 0,
                 ps_total_duration = 0\<rparr>]\<rparr>)"

definition update_phone_stats :: "store \<Rightarrow> string \<Rightarrow> bool \<Rightarrow> string \<Rightarrow> store" where
  "update_phone_stats s phone_number new_registration today =
     (if new_registration then insert_or_ignore_stat s phone_number today else s)"

text \<open>
  The two messages \<open>register_phone_number\<close> returns: "Phone ... registered for ..." and,
  from the handler of \<open>sqlite3.IntegrityError\<close>, "Phone ... already registered".
\<close>

datatype register_result =
  Registered string string
| AlreadyRegistered string

definition register_phone_number ::
  "store \<Rightarrow> string \<Rightarrow> string \<Rightarrow> string option \<Rightarrow> string option \<Rightarrow> string \<Rightarrow> int \<Rightarrow> int \<Rightarrow>
   string \<Rightarrow> register_result \<times> store" where
  "register_phone_number s phone_id phone_number dept user_id phone_type prio max_concurrent today =
     (if list_ex (\<lambda>p. p_id p = phone_id \<or> p_phone_number p = phone_number) (phone_numbers s)
      then (AlreadyRegistered phone_number, s)
      else (Registered phone_number
              (case dept of None \<Rightarrow> ''general use''
               | Some d \<Rightarrow> if d \<noteq> [] then d else ''general use''),
            update_phone_stats
              (s\<lparr>phone_numbers := phone_numbers s @
                   [\<lparr>p_id = phone_id, p_phone_number = phone_number, p_department_id = dept,
                     p_user_id = user_id, p_status = ''available'', p_type = phone_type,
                     p_priority = prio, p_max_concurrent_calls = max_concurrent,
                     p_current_calls = 0\<rparr>]\<rparr>)
              phone_number True today))"

text \<open>
  \<open>get_available_phone\<close>: both queries share
  \<open>status = 'available' AND current_calls < max_concurrent_calls AND priority >= ?\<close>
  and \<open>ORDER BY priority DESC, current_calls ASC LIMIT 1\<close>.
\<close>

definition eligible :: "int \<Rightarrow> phone \<Rightarrow> bool" where
  "eligible priority_min p =
     (p_status p = ''available'' \<and> p_current_calls p < p_max_concurrent_calls p \<and>
      priority_min \<le> p_priority p)"

definition phone_order :: "phone \<Rightarrow> phone \<Rightarrow> bool" where
  "phone_order a b =
     (p_priority b < p_priority a \<or>
      (p_priority a = p_priority b \<and> p_current_calls a \<le> p_current_calls b))"

definition is_general :: "phone \<Rightarrow> bool" where
  "is_general p = (p_department_id p = None \<or> p_department_id p = Some ''general'')"

definition department_phones :: "store \<Rightarrow> string option \<Rightarrow> int \<Rightarrow> phone list" where
  "department_phones s dept priority_min =
     order_by phone_order
       (filter (\<lambda>p. p_department_id p = dept \<and> eligible priority_min p) (phone_numbers s))"

definition general_phones :: "store \<Rightarrow> int \<Rightarrow> phone list" where
  "general_phones s priority_min =
     order_by phone_order
       (filter (\<lambda>p. is_general p \<and> eligible priority_min p) (phone_numbers s))"

definition get_available_phone :: "store \<Rightarrow> string option \<Rightarrow> int \<Rightarrow> string option" where
  "get_available_phone s dept priority_min =
     (case (if truthy dept then fetchone (department_phones s dept priority_min) else None) of
        Some r \<Rightarrow> Some (p_phone_number r)
      | None \<Rightarrow>
          (case fetchone (general_phones s priority_min) of
             Some r \<Rightarrow> Some (p_phone_number r)
           | None \<Rightarrow> None))"

text \<open>
  \<open>determine_target_department\<close> without a usable hint:
  \<open>SELECT department_id ... WHERE phone_number = ? AND department_id IS NOT NULL\<close>,
  then the patterns on the upper-cased number.
\<close>

definition department_of_number :: "store \<Rightarrow> string \<Rightarrow> string" where
  "department_of_number s to_number =
     (case fetchone (List.map_filter
                       (\<lambda>p. if p_phone_number p = to_number then p_department_id p else None)
                       (phone_numbers s)) of
        Some d \<Rightarrow> d
      | None \<Rightarrow>
          if py_in ''SALES'' (py_upper to_number) then ''sales''
          else if py_in ''CREDIT'' (py_upper to_number) then ''credit_analysis''
          else if py_in ''TRANSPORT'' (py_upper to_number) then ''vehicle_transport''
          else if py_in ''SUPPORT'' (py_upper to_number) then ''customer_service''
          else ''general'')"

definition determine_target_department :: "store \<Rightarrow> string \<Rightarrow> string option \<Rightarrow> string" where
  "determine_target_department s to_number department_hint =
     (case department_hint of
        None \<Rightarrow> department_of_number s to_number
      | Some hint \<Rightarrow> if hint \<noteq> [] then hint else department_of_number s to_number)"

text \<open>
  \<open>handle_overflow_routing\<close> orders by \<open>current_calls * 1.0 / max_concurrent_calls\<close>.
  The quotient is taken exactly here; SQLite yields NULL for a zero divisor, and NULL
  sorts first in ascending order.
\<close>

definition load :: "phone \<Rightarrow> rat option" where
  "load p =
     (if p_max_concurrent_calls p = 0 then None
      else Some (of_int (p_current_calls p) / of_int (p_max_concurrent_calls p)))"

definition load_le :: "rat option \<Rightarrow> rat option \<Rightarrow> bool" where
  "load_le a b =
     (case a of None \<Rightarrow> True | Some x \<Rightarrow> (case b of None \<Rightarrow> False | Some y \<Rightarrow> x \<le> y))"

definition overflow_order :: "phone \<Rightarrow> phone \<Rightarrow> bool" where
  "overflow_order a b = load_le (load a) (load b)"

definition cross_order :: "phone \<Rightarrow> phone \<Rightarrow> bool" where
  "cross_order a b =
     (p_priority b < p_priority a \<or>
      (p_priority a = p_priority b \<and> load_le (load a) (load b)))"

definition get_voicemail_number :: string where
  "get_voicemail_number = ''+1-555-VOICE-MAIL''"

definition handle_overflow_routing :: "store \<Rightarrow> string \<Rightarrow> string \<times> string" where
  "handle_overflow_routing s dept =
     (case fetchone (order_by overflow_order
             (filter (\<lambda>p. p_department_id p = Some dept \<and> p_status p = ''available'')
                (phone_numbers s))) of
        Some r \<Rightarrow> (p_phone_number r, ''overflow_same_department'')
      | None \<Rightarrow>
          (case fetchone (order_by cross_order
                  (filter (\<lambda>p. p_status p = ''available'') (phone_numbers s))) of
             Some r \<Rightarrow> (p_phone_number r, ''overflow_cross_department'')
           | None \<Rightarrow> (get_voicemail_number, ''overflow_voicemail'')))"

definition bump_total_calls :: "store \<Rightarrow> string \<Rightarrow> string \<Rightarrow> store" where
  "bump_total_calls s phone_number today =
     s\<lparr>phone_stats :=
         map (\<lambda>t. if ps_phone_number t = phone_number \<and> ps_date t = today
                  then t\<lparr>ps_total_calls := ps_total_calls t + 1\<rparr> else t) (phone_stats s)\<rparr>"

definition bump_total_sms :: "store \<Rightarrow> string \<Rightarrow> string \<Rightarrow> store" where
  "bump_total_sms s phone_number today =
     s\<lparr>phone_stats :=
         map (\<lambda>t. if ps_phone_number t = phone_number \<and> ps_date t = today
                  then t\<lparr>ps_total_sms := ps_total_sms t + 1\<rparr> else t) (phone_stats s)\<rparr>"

definition bump_current_calls :: "store \<Rightarrow> string \<Rightarrow> store" where
  "bump_current_calls s phone_number =
     s\<lparr>phone_numbers :=
         map (\<lambda>p. if p_phone_number p = phone_number
                  then p\<lparr>p_current_calls := p_current_calls p + 1\<rparr> else p) (phone_numbers s)\<rparr>"

definition increment_phone_usage :: "store \<Rightarrow> string \<Rightarrow> string \<Rightarrow> string \<Rightarrow> store" where
  "increment_phone_usage s phone_number usage_type today =
     (let s1 = (if usage_type = ''call'' then bump_current_calls s phone_number else s)
      in if usage_type = ''call''
         then bump_total_calls (insert_or_ignore_stat s1 phone_number today) phone_number today
         else if usage_type = ''sms''
         then bump_total_sms (insert_or_ignore_stat s1 phone_number today) phone_number today
         else s1)"

text \<open>
  \<open>increment_phone_usage\<close> as a nested call: \<open>uncommitted\<close> says that the caller holds a
  write on its own connection that it has not committed. The \<open>call\<close> and \<open>sms\<close>
  branches begin with a write, which then raises; any other usage type executes no
  statement. The store passed is the committed one, which is all the new connection sees.
\<close>

definition increment_phone_usage_during ::
  "bool \<Rightarrow> store \<Rightarrow> string \<Rightarrow> string \<Rightarrow> string \<Rightarrow> error + store" where
  "increment_phone_usage_during uncommitted s phone_number usage_type today =
     (if uncommitted \<and> (usage_type = ''call'' \<or> usage_type = ''sms'')
      then Inl OperationalError
      else Inr (increment_phone_usage s phone_number usage_type today))"

text \<open>
  \<open>route_incoming_call\<close>: the target department, the line, then
  \<open>INSERT INTO call_routing\<close> (a used primary key raises), then
  \<open>self.increment_phone_usage(routed_phone, "call")\<close> while the \<open>INSERT\<close> is not
  committed, and only then \<open>conn.commit()\<close>, which would add the routing row.
\<close>

record routing =
  route_id_of :: string
  from_number_of :: string
  to_number_of :: string
  routed_to :: string
  department_routed :: string
  routing_reason_of :: string
  timestamp_of :: string

definition route_incoming_call ::
  "store \<Rightarrow> string \<Rightarrow> string \<Rightarrow> string \<Rightarrow> string \<Rightarrow> string \<Rightarrow> string option \<Rightarrow>
   error + routing \<times> store" where
  "route_incoming_call s route_id timestamp today from_number to_number department_hint =
     (let target_department = determine_target_department s to_number department_hint;
          (routed_phone, routing_reason) =
             (case get_available_phone s (Some target_department) 1 of
                None \<Rightarrow> handle_overflow_routing s target_department
              | Some found \<Rightarrow>
                  if found \<noteq> [] then (found, ''normal_routing'')
                  else handle_overflow_routing s target_department)
      in if route_id \<in> set (map cr_id (call_routing s)) then Inl IntegrityError
         else case increment_phone_usage_during True s routed_phone ''call'' today of
                Inl e \<Rightarrow> Inl e
              | Inr s2 \<Rightarrow>
                  Inr (\<lparr>route_id_of = route_id, from_number_of = from_number,
                         to_number_of = to_number, routed_to = routed_phone,
                         department_routed = target_department,
                         routing_reason_of = routing_reason, timestamp_of = timestamp\<rparr>,
                       s2\<lparr>call_routing := call_routing s2 @
                            [\<lparr>cr_id = route_id, cr_from_number = from_number,
                              cr_to_number = to_number,
                              cr_routed_to_number = Some routed_phone,
                              cr_routed_to_user = None,
                              cr_department = Some target_department,
                              cr_routing_reason = Some routing_reason,
                              cr_timestamp = timestamp, cr_call_duration = None,
                              cr_status = ''active''\<rparr>]\<rparr>))"

text \<open>
  \<open>end_call\<close> starts with \<open>SELECT routed_to_number FROM call_routing WHERE id = ?\<close>,
  whose result is a row holding a nullable column. Nothing happens when the route id
  is unknown. Otherwise three updates:
  the routing row, \<open>current_calls = MAX(0, current_calls - 1)\<close> on the routed number,
  and \<open>total_duration\<close> on the statistics row of the routed number and of \<open>today\<close>,
  the date on which \<open>end_call\<close> runs.
\<close>

definition routed_number_of :: "store \<Rightarrow> string \<Rightarrow> string option option" where
  "routed_number_of s route_id =
     fetchone (map cr_routed_to_number (filter (\<lambda>r. cr_id r = route_id) (call_routing s)))"

definition end_call :: "store \<Rightarrow> string \<Rightarrow> int \<Rightarrow> string \<Rightarrow> store" where
  "end_call s route_id duration_seconds today =
     (case routed_number_of s route_id of
        None \<Rightarrow> s
      | Some routed_phone \<Rightarrow>
          s\<lparr>call_routing :=
               map (\<lambda>r. if cr_id r = route_id
                        then r\<lparr>cr_call_duration := Some duration_seconds,
                               cr_status := ''completed''\<rparr>
                        else r) (call_routing s),
            phone_numbers :=
               map (\<lambda>p. if Some (p_phone_number p) = routed_phone
                        then p\<lparr>p_current_calls := max 0 (p_current_calls p - 1)\<rparr>
                        else p) (phone_numbers s),
            phone_stats :=
               map (\<lambda>t. if Some (ps_phone_number t) = routed_phone \<and> ps_date t = today
                        then t\<lparr>ps_total_duration := ps_total_duration t + duration_seconds\<rparr>
                        else t) (phone_stats s)\<rparr>)"

text \<open>
  Sequences of calls on the phone manager. A call that raises leaves the store as it
  was, and the sequence goes on.
\<close>

datatype operation =
  Register string string "string option" "string option" string int int string
| Route string string string string string "string option"
| Increment string string string
| EndCall string int string

fun apply_operation :: "store \<Rightarrow> operation \<Rightarrow> store" where
  "apply_operation s (Register phone_id phone_number dept user_id phone_type prio max_concurrent today) =
     snd (register_phone_number s phone_id phone_number dept user_id phone_type prio
            max_concurrent today)"
| "apply_operation s (Route route_id timestamp today from_number to_number department_hint) =
     (case route_incoming_call s route_id timestamp today from_number to_number department_hint of
        Inl e \<Rightarrow> s
      | Inr (result, s') \<Rightarrow> s')"
| "apply_operation s (Increment phone_number usage_type today) =
     increment_phone_usage s phone_number usage_type today"
| "apply_operation s (EndCall route_id duration_seconds today) =
     end_call s route_id duration_seconds today"

definition run :: "operation list \<Rightarrow> store" where
  "run ops = foldl apply_operation empty_store ops"

subsection \<open>Notions used in the statements\<close>

text \<open>The comparators of the \<open>ORDER BY\<close> clauses are total preorders.\<close>

definition total_preorder :: "('a \<Rightarrow> 'a \<Rightarrow> bool) \<Rightarrow> bool" where
  "total_preorder le = ((\<forall>a b. le a b \<or> le b a) \<and> (\<forall>a b c. le a b \<longrightarrow> le b c \<longrightarrow> le a c))"

text \<open>The departments and users that the module's \<open>__main__\<close> block sets up.\<close>

definition sample_departments :: store where
  "sample_departments =
     foldl (\<lambda>s (dept_id, name). create_department s dept_id name None None) empty_store
       [(''sales'', ''Sales Department''), (''credit_analysis'', ''Credit Analysis''),
        (''vehicle_transport'', ''Vehicle Transport''),
        (''customer_service'', ''Customer Service'')]"

definition sample_team :: store where
  "sample_team =
     foldl (\<lambda>s (user_id, name, dept, role). add_user s user_id name dept None role)
       sample_departments
       [(''user_001'', ''Alice Johnson'', ''sales'', ''lead''),
        (''user_002'', ''Bob Smith'', ''sales'', ''member''),
        (''user_003'', ''Carol Davis'', ''credit_analysis'', ''lead''),
        (''user_004'', ''David Wilson'', ''vehicle_transport'', ''lead''),
        (''user_005'', ''Eve Brown'', ''customer_service'', ''lead'')]"

text \<open>
  The specification's reading of \<open>find_available\<close>: the preferred user if it exists,
  belongs to the department and is available; otherwise an available user of the
  department, \<open>lead\<close> before \<open>member\<close>, then by name ascending. It is compared below with
  \<open>find_available_user\<close>, which is the code.
\<close>

definition role_rank :: "string \<Rightarrow> nat" where
  "role_rank role = (if role = ''lead'' then 0 else 1)"

definition spec_user_order :: "user \<Rightarrow> user \<Rightarrow> bool" where
  "spec_user_order a b =
     (role_rank (u_role a) < role_rank (u_role b) \<or>
      (role_rank (u_role a) = role_rank (u_role b) \<and> u_name a \<le> u_name b))"

definition spec_find_available :: "store \<Rightarrow> string \<Rightarrow> string option \<Rightarrow> string option" where
  "spec_find_available s dept preferred_user =
     (if list_ex (\<lambda>u. Some (u_id u) = preferred_user \<and> u_department u = dept \<and>
                       u_status u = ''available'') (users s)
      then preferred_user
      else map_option u_id
             (fetchone (order_by spec_user_order
                (filter (\<lambda>u. u_department u = dept \<and> u_status u = ''available'') (users s)))))"

text \<open>
  When the loop of \<open>apply_routing_rules\<close> returns at a rule: the two branches of the
  loop body that return.
\<close>

definition rule_matches :: "routing_rule \<Rightarrow> string \<Rightarrow> string \<Rightarrow> bool" where
  "rule_matches r from_number to_number =
     ((rr_condition_type r = ''phone_pattern'' \<and>
       (py_in (rr_condition_value r) from_number \<or> py_in (rr_condition_value r) to_number)) \<or>
      (rr_condition_type r = ''department'' \<and>
       check_department_condition (rr_condition_value r) from_number))"

text \<open>Two rules, the one of lower priority number added last.\<close>

definition sample_rules :: store where
  "sample_rules =
     (case add_routing_rule empty_store ''rule_1'' ''phone_pattern'' ''SALES'' ''sales'' None 5 of
        Inl e \<Rightarrow> empty_store
      | Inr s1 \<Rightarrow>
          (case add_routing_rule s1 ''rule_2'' ''phone_pattern'' ''CREDIT'' ''credit_analysis''
                  None 1 of
             Inl e \<Rightarrow> s1
           | Inr s2 \<Rightarrow> s2))"

text \<open>Three registered numbers, none of them general.\<close>

definition sample_phones :: store where
  "sample_phones =
     run [Register ''phone_1'' ''+1-555-SALES-01'' (Some ''sales'') None ''business'' 10 1
            ''2024-05-01'',
          Register ''phone_2'' ''+1-555-SALES-02'' (Some ''sales'') None ''business'' 5 1
            ''2024-05-01'',
          Register ''phone_3'' ''+1-555-CREDIT-01'' (Some ''credit_analysis'') None ''business''
            10 1 ''2024-05-01'']"



text \<open>One line of capacity 1 and two direct usage increments on it.\<close>

definition two_increments :: "operation list" where
  "two_increments =
     [Register ''phone_1'' ''+1-555-SALES-01'' (Some ''sales'') None ''business'' 10 1
        ''2024-05-01'',
      Increment ''+1-555-SALES-01'' ''call'' ''2024-05-01'',
      Increment ''+1-555-SALES-01'' ''call'' ''2024-05-01'']"

text \<open>The sample team while \<open>user_003\<close>, the only user of \<open>credit_analysis\<close>, is busy.\<close>

definition busy_team :: store where
  "busy_team = update_user_status sample_team (Some ''user_003'') ''busy''"

section \<open>Properties\<close>

subsection \<open>Ordering and fetching\<close>

lemma fetchone_None_iff: "fetchone rows = None \<longleftrightarrow> rows = []"
  by (simp add: fetchone_def split: list.splits)

lemma fetchone_Some_mem: "fetchone rows = Some r \<Longrightarrow> r \<in> set rows"
  by (auto simp: fetchone_def split: list.splits)

lemma set_insert_by: "set (insert_by le x rows) = insert x (set rows)"
  by (induction rows) auto

lemma set_order_by: "set (order_by le rows) = set rows"
  by (induction rows) (simp_all add: order_by_def set_insert_by)

lemma order_by_Nil_iff: "order_by le rows = [] \<longleftrightarrow> rows = []"
  using set_order_by [of le rows] by (metis set_empty)

lemma sorted_insert_by:
  assumes "total_preorder le" and "sorted_wrt le rows"
  shows "sorted_wrt le (insert_by le x rows)"
  using assms(2)
proof (induction rows)
  case Nil
  then show ?case by simp
next
  case (Cons y ys)
  show ?case
  proof (cases "le x y")
    case True
    have "le x z" if "z \<in> set ys" for z
    proof -
      from Cons.prems that have "le y z" by simp
      with True assms(1) show ?thesis unfolding total_preorder_def by blast
    qed
    with True Cons.prems show ?thesis by simp
  next
    case False
    with assms(1) have "le y x" unfolding total_preorder_def by blast
    with False Cons show ?thesis by (auto simp: set_insert_by)
  qed
qed

lemma sorted_order_by: "total_preorder le \<Longrightarrow> sorted_wrt le (order_by le rows)"
  by (induction rows) (simp_all add: order_by_def sorted_insert_by)

lemma fetchone_order_by_least:
  assumes "total_preorder le" and "fetchone (order_by le rows) = Some r"
  shows "r \<in> set rows \<and> (\<forall>q \<in> set rows. le r q)"
proof -
  from assms(2) obtain rest where eq: "order_by le rows = r # rest"
    by (auto simp: fetchone_def split: list.splits)
  have "sorted_wrt le (r # rest)"
    using sorted_order_by [OF assms(1), of rows] eq by simp
  moreover have "le r r" using assms(1) unfolding total_preorder_def by blast
  moreover have "set rows = insert r (set rest)"
    using set_order_by [of le rows] eq by simp
  ultimately show ?thesis by auto
qed

lemma total_preorder_user_order: "total_preorder user_order"
proof -
  have "user_order a b \<or> user_order b a" for a b
    unfolding user_order_def by (cases "u_role a = u_role b") auto
  moreover have "user_order a c" if "user_order a b" and "user_order b c" for a b c
    using that unfolding user_order_def by (auto intro: less_trans order_trans)
  ultimately show ?thesis unfolding total_preorder_def by blast
qed

lemma total_preorder_phone_order: "total_preorder phone_order"
  unfolding total_preorder_def phone_order_def by auto

lemma total_preorder_rule_order: "total_preorder rule_order"
  unfolding total_preorder_def rule_order_def by auto

subsection \<open>The user directory\<close>

lemma users_create_department [simp]:
  "users (create_department s dept_id name lead phones) = users s"
  by (simp add: create_department_def)

lemma users_update_department_membership [simp]:
  "users (update_department_membership s dept user_id) = users s"
  by (simp add: update_department_membership_def split: option.splits)

lemma users_sample_team:
  "users sample_team =
     [\<lparr>u_id = ''user_001'', u_name = ''Alice Johnson'', u_department = ''sales'',
        u_phone_number = None, u_role = ''lead'', u_status = ''available''\<rparr>,
      \<lparr>u_id = ''user_002'', u_name = ''Bob Smith'', u_department = ''sales'',
        u_phone_number = None, u_role = ''member'', u_status = ''available''\<rparr>,
      \<lparr>u_id = ''user_003'', u_name = ''Carol Davis'', u_department = ''credit_analysis'',
        u_phone_number = None, u_role = ''lead'', u_status = ''available''\<rparr>,
      \<lparr>u_id = ''user_004'', u_name = ''David Wilson'', u_department = ''vehicle_transport'',
        u_phone_number = None, u_role = ''lead'', u_status = ''available''\<rparr>,
      \<lparr>u_id = ''user_005'', u_name = ''Eve Brown'', u_department = ''customer_service'',
        u_phone_number = None, u_role = ''lead'', u_status = ''available''\<rparr>]"
  by (simp add: sample_team_def sample_departments_def add_user_def empty_store_def)

lemma find_sales_default:
  "find_available_user sample_team (Some ''sales'') None = Some ''user_002''"
  by (simp add: find_available_user_def users_sample_team truthy_def available_in_def
      order_by_def user_order_def fetchone_def)

lemma find_sales_preferred:
  "find_available_user sample_team (Some ''sales'') (Some ''user_001'') = Some ''user_001''"
  by (simp add: find_available_user_def users_sample_team truthy_def available_in_def
      order_by_def user_order_def fetchone_def)

lemma spec_find_sales_default:
  "spec_find_available sample_team ''sales'' None = Some ''user_001''"
  by (simp add: spec_find_available_def users_sample_team role_rank_def
      order_by_def spec_user_order_def fetchone_def)

lemma fallback_user:
  assumes "fetchone (order_by user_order (filter (available_in dept) (users s))) = Some r"
  shows "r \<in> set (users s) \<and> available_in dept r \<and>
         (\<forall>q \<in> set (users s). available_in dept q \<longrightarrow> user_order r q)"
  using fetchone_order_by_least [OF total_preorder_user_order assms] by auto

lemma fallback_none:
  "fetchone (order_by user_order (filter (available_in dept) (users s))) = None \<longleftrightarrow>
     \<not> (\<exists>u \<in> set (users s). available_in dept u)"
  by (simp add: fetchone_None_iff order_by_Nil_iff filter_empty_conv)

lemma preferred_query:
  "fetchone (filter (\<lambda>u. Some (u_id u) = preferred \<and> available_in dept u) (users s)) \<noteq> None
     \<longleftrightarrow> (\<exists>u \<in> set (users s). Some (u_id u) = preferred \<and> available_in dept u)"
  by (simp add: fetchone_None_iff filter_empty_conv)

lemma find_available_user_cases:
  "find_available_user s dept preferred =
     (if truthy preferred \<and>
         (\<exists>u \<in> set (users s). Some (u_id u) = preferred \<and> available_in dept u)
      then preferred
      else map_option u_id
             (fetchone (order_by user_order (filter (available_in dept) (users s)))))"
proof -
  have "(case x of None \<Rightarrow> None | Some r \<Rightarrow> Some (u_id r)) = map_option u_id x"
    for x :: "user option"
    by (cases x) simp_all
  then show ?thesis
    unfolding find_available_user_def preferred_query by (simp only:)
qed

text \<open>
  C9. Whenever \<open>find_available_user\<close> returns a user id for a department, a row of
  \<open>users\<close> carries that id with status \<open>available\<close> and that department; under the
  primary key of the table (ids are distinct) every row with that id is such.
\<close>

theorem find_available_user_sound:
  assumes "find_available_user s (Some dept) preferred = Some uid"
  shows "(\<exists>u \<in> set (users s).
            u_id u = uid \<and> u_status u = ''available'' \<and> u_department u = dept) \<and>
         (distinct (map u_id (users s)) \<longrightarrow>
            (\<forall>u \<in> set (users s).
               u_id u = uid \<longrightarrow> u_status u = ''available'' \<and> u_department u = dept))"
proof -
  have ex: "\<exists>u \<in> set (users s). u_id u = uid \<and> available_in (Some dept) u"
  proof (cases "truthy preferred \<and>
      (\<exists>u \<in> set (users s). Some (u_id u) = preferred \<and> available_in (Some dept) u)")
    case True
    with assms have "preferred = Some uid"
      by (simp add: find_available_user_cases)
    with True show ?thesis by auto
  next
    case False
    with assms obtain r
      where "fetchone (order_by user_order (filter (available_in (Some dept)) (users s))) = Some r"
        and "u_id r = uid"
      by (auto simp: find_available_user_cases)
    with fallback_user [of "Some dept" s r] show ?thesis by auto
  qed
  then obtain u where u: "u \<in> set (users s)" "u_id u = uid" "available_in (Some dept) u"
    by blast
  have "v = u" if "distinct (map u_id (users s))" "v \<in> set (users s)" "u_id v = uid" for v
    using that u by (metis distinct_map inj_on_def)
  with u show ?thesis by (auto simp: available_in_def)
qed

text \<open>The sample team: with no preference, the query for \<open>sales\<close> returns \<open>user_002\<close>.\<close>

theorem find_available_user_sound_witness:
  "find_available_user sample_team (Some ''sales'') None = Some ''user_002'' \<and>
   distinct (map u_id (users sample_team)) \<and>
   (\<exists>u \<in> set (users sample_team).
      u_id u = ''user_002'' \<and> u_status u = ''available'' \<and> u_department u = ''sales'')"
proof -
  have d: "distinct (map u_id (users sample_team))"
    by (simp add: users_sample_team)
  from find_available_user_sound [OF find_sales_default] d find_sales_default
  show ?thesis by blast
qed

text \<open>
  C2, as the code has it. A non-empty preferred id that names an available user of the
  department is returned. Otherwise the result is an available user of the department
  that comes first under \<open>ORDER BY role DESC, name ASC\<close>: no available user of the
  department has a greater role string, and among those with the same role none has a
  smaller name. Roles compare as strings, so \<open>member\<close> comes before \<open>lead\<close>. The result
  is \<open>None\<close> exactly when the department has no available user.
\<close>

theorem find_available_user_selection:
  "(truthy preferred \<and>
      (\<exists>u \<in> set (users s). Some (u_id u) = preferred \<and> u_department u = dept \<and>
                              u_status u = ''available'')
      \<longrightarrow> find_available_user s (Some dept) preferred = preferred) \<and>
   (\<not> (truthy preferred \<and>
        (\<exists>u \<in> set (users s). Some (u_id u) = preferred \<and> u_department u = dept \<and>
                                u_status u = ''available''))
      \<longrightarrow> (\<forall>uid. find_available_user s (Some dept) preferred = Some uid \<longrightarrow>
             (\<exists>r \<in> set (users s).
                u_id r = uid \<and> u_department r = dept \<and> u_status r = ''available'' \<and>
                (\<forall>q \<in> set (users s).
                   u_department q = dept \<and> u_status q = ''available'' \<longrightarrow>
                     u_role q < u_role r \<or> (u_role q = u_role r \<and> u_name r \<le> u_name q))))) \<and>
   (find_available_user s (Some dept) preferred = None \<longleftrightarrow>
      \<not> (\<exists>u \<in> set (users s). u_department u = dept \<and> u_status u = ''available'')) \<and>
   (\<forall>a b. u_role a = ''member'' \<and> u_role b = ''lead'' \<longrightarrow>
      user_order a b \<and> \<not> user_order b a)"
proof (intro conjI impI allI)
  assume "truthy preferred \<and>
      (\<exists>u \<in> set (users s). Some (u_id u) = preferred \<and> u_department u = dept \<and>
                              u_status u = ''available'')"
  then show "find_available_user s (Some dept) preferred = preferred"
    by (auto simp: find_available_user_cases available_in_def)
next
  fix uid
  assume no: "\<not> (truthy preferred \<and>
      (\<exists>u \<in> set (users s). Some (u_id u) = preferred \<and> u_department u = dept \<and>
                              u_status u = ''available''))"
    and res: "find_available_user s (Some dept) preferred = Some uid"
  from no have "\<not> (truthy preferred \<and>
      (\<exists>u \<in> set (users s). Some (u_id u) = preferred \<and> available_in (Some dept) u))"
    by (auto simp: available_in_def)
  with res obtain r
    where "fetchone (order_by user_order (filter (available_in (Some dept)) (users s))) = Some r"
      and "u_id r = uid"
    by (auto simp: find_available_user_cases)
  with fallback_user [of "Some dept" s r]
  have r: "r \<in> set (users s)" "u_id r = uid" "u_department r = dept"
      "u_status r = ''available''"
    and least: "\<forall>q \<in> set (users s).
      u_department q = dept \<and> u_status q = ''available'' \<longrightarrow>
        u_role q < u_role r \<or> (u_role q = u_role r \<and> u_name r \<le> u_name q)"
    by (auto simp: available_in_def user_order_def)
  show "\<exists>r \<in> set (users s).
          u_id r = uid \<and> u_department r = dept \<and> u_status r = ''available'' \<and>
          (\<forall>q \<in> set (users s).
             u_department q = dept \<and> u_status q = ''available'' \<longrightarrow>
               u_role q < u_role r \<or> (u_role q = u_role r \<and> u_name r \<le> u_name q))"
    using r least by blast
next
  show "find_available_user s (Some dept) preferred = None \<longleftrightarrow>
      \<not> (\<exists>u \<in> set (users s). u_department u = dept \<and> u_status u = ''available'')"
  proof (cases "truthy preferred \<and>
      (\<exists>u \<in> set (users s). Some (u_id u) = preferred \<and> available_in (Some dept) u)")
    case True
    then have "find_available_user s (Some dept) preferred = preferred"
      by (simp add: find_available_user_cases)
    with True show ?thesis by (auto simp: truthy_def available_in_def)
  next
    case False
    then have "find_available_user s (Some dept) preferred =
        map_option u_id (fetchone (order_by user_order (filter (available_in (Some dept)) (users s))))"
      by (simp only: find_available_user_cases if_False)
    then show ?thesis
      using fallback_none [of "Some dept" s] by (auto simp: available_in_def)
  qed
next
  fix a b :: user
  assume "u_role a = ''member'' \<and> u_role b = ''lead''"
  then show "user_order a b" and "\<not> user_order b a"
    by (simp_all add: user_order_def)
qed

text \<open>
  On the sample team: the preferred \<open>user_001\<close> of \<open>sales\<close> is returned, and without a
  preference the result is not \<open>None\<close>.
\<close>

theorem find_available_user_selection_witness:
  "find_available_user sample_team (Some ''sales'') (Some ''user_001'') = Some ''user_001'' \<and>
   \<not> find_available_user sample_team (Some ''sales'') None = None"
proof -
  have t: "truthy (Some ''user_001'')" by (simp add: truthy_def)
  have e: "\<exists>u \<in> set (users sample_team). Some (u_id u) = Some ''user_001'' \<and>
             u_department u = ''sales'' \<and> u_status u = ''available''"
    by (simp add: users_sample_team)
  have e': "\<exists>u \<in> set (users sample_team). u_department u = ''sales'' \<and> u_status u = ''available''"
    by (simp add: users_sample_team)
  from find_available_user_selection [of "Some ''user_001''" sample_team "''sales''"] t e
  have "find_available_user sample_team (Some ''sales'') (Some ''user_001'') = Some ''user_001''"
    by blast
  moreover from find_available_user_selection [of None sample_team "''sales''"] e'
  have "\<not> find_available_user sample_team (Some ''sales'') None = None"
    by blast
  ultimately show ?thesis by blast
qed

text \<open>
  C2 as the specification words it fails on the sample team: \<open>sales\<close> has the available
  lead \<open>user_001\<close> (Alice Johnson) and the available member \<open>user_002\<close> (Bob Smith); the
  code returns the member, the lead-before-member reading returns the lead.
\<close>

theorem find_available_user_lead_first_counterexample:
  "find_available_user sample_team (Some ''sales'') None = Some ''user_002'' \<and>
   spec_find_available sample_team ''sales'' None = Some ''user_001''"
  using find_sales_default spec_find_sales_default by simp

text \<open>
  C10. \<open>add_user\<close> has no failing branch. After it, exactly one row carries the given id:
  the new one, with status \<open>available\<close> whatever the store held before for that id;
  the rows of the other ids are as before.
\<close>

theorem add_user_replaces_row:
  "filter (\<lambda>u. u_id u = user_id) (users (add_user s user_id name dept phone_number role)) =
     [\<lparr>u_id = user_id, u_name = name, u_department = dept, u_phone_number = phone_number,
       u_role = role, u_status = ''available''\<rparr>] \<and>
   filter (\<lambda>u. u_id u \<noteq> user_id) (users (add_user s user_id name dept phone_number role)) =
     filter (\<lambda>u. u_id u \<noteq> user_id) (users s)"
  by (simp add: add_user_def)

subsection \<open>Routing rules\<close>

lemma starts_with_iff: "starts_with sub t \<longleftrightarrow> (\<exists>b. t = sub @ b)"
  by (induction sub t rule: starts_with.induct) auto

lemma py_in_iff: "py_in sub t \<longleftrightarrow> (\<exists>a b. t = a @ sub @ b)"
proof (induction t)
  case Nil
  then show ?case by simp
next
  case (Cons c cs)
  have "(\<exists>a b. c # cs = a @ sub @ b) \<longleftrightarrow>
        (\<exists>b. c # cs = sub @ b) \<or> (\<exists>a b. cs = a @ sub @ b)"
  proof
    assume "\<exists>a b. c # cs = a @ sub @ b"
    then obtain a b where eq: "c # cs = a @ sub @ b" by blast
    show "(\<exists>b. c # cs = sub @ b) \<or> (\<exists>a b. cs = a @ sub @ b)"
    proof (cases a)
      case Nil
      with eq show ?thesis by auto
    next
      case (Cons a0 as)
      with eq have "cs = as @ sub @ b" by simp
      then show ?thesis by blast
    qed
  next
    assume "(\<exists>b. c # cs = sub @ b) \<or> (\<exists>a b. cs = a @ sub @ b)"
    then show "\<exists>a b. c # cs = a @ sub @ b"
    proof
      assume "\<exists>b. c # cs = sub @ b"
      then obtain b where "c # cs = [] @ sub @ b" by auto
      then show ?thesis by blast
    next
      assume "\<exists>a b. cs = a @ sub @ b"
      then obtain a b where "c # cs = (c # a) @ sub @ b" by auto
      then show ?thesis by blast
    qed
  qed
  with Cons show ?case by (simp add: starts_with_iff)
qed

lemma rules_loop_step:
  "rules_loop (r # rs) f t =
     (if rule_matches r f t then (Some (rr_target_department r), rr_target_user r)
      else rules_loop rs f t)"
  by (simp add: rule_matches_def)

lemma rules_loop_first_match:
  assumes "\<forall>q \<in> set pre. \<not> rule_matches q f t" and "rule_matches r f t"
  shows "rules_loop (pre @ r # post) f t = (Some (rr_target_department r), rr_target_user r)"
  using assms(1)
proof (induction pre)
  case Nil
  from assms(2) show ?case by (simp only: append_Nil rules_loop_step if_True)
next
  case (Cons q qs)
  then have "\<not> rule_matches q f t" and "\<forall>q \<in> set qs. \<not> rule_matches q f t" by simp_all
  with Cons.IH show ?case by (simp only: append_Cons rules_loop_step if_False)
qed

lemma rules_loop_no_match:
  "\<forall>q \<in> set rs. \<not> rule_matches q f t \<Longrightarrow> rules_loop rs f t = (None, None)"
proof (induction rs)
  case Nil
  show ?case by simp
next
  case (Cons q qs)
  then have "\<not> rule_matches q f t" and "\<forall>q \<in> set qs. \<not> rule_matches q f t" by simp_all
  with Cons.IH show ?case by (simp only: rules_loop_step if_False)
qed

lemma rules_loop_ignores_rest:
  "rule_matches r f t \<Longrightarrow> rules_loop (pre @ r # post) f t = rules_loop (pre @ [r]) f t"
proof (induction pre)
  case Nil
  then show ?case by (simp only: append_Nil rules_loop_step if_True)
next
  case (Cons q qs)
  then show ?case by (simp only: append_Cons rules_loop_step)
qed

lemma length_insert_by: "length (insert_by le x rows) = Suc (length rows)"
  by (induction rows) auto

lemma count_insert_by:
  "count_list (insert_by le x rows) y = count_list (x # rows) y"
  by (induction rows) auto

lemma count_order_by: "count_list (order_by le rows) y = count_list rows y"
  by (induction rows) (simp_all add: order_by_def count_insert_by)

lemma count_filter: "count_list (filter P rows) y = (if P y then count_list rows y else 0)"
  by (induction rows) simp_all

lemma rules_sample:
  "fetch_rules sample_rules =
     [\<lparr>rr_id = ''rule_2'', rr_priority = 1, rr_condition_type = ''phone_pattern'',
        rr_condition_value = ''CREDIT'', rr_target_department = ''credit_analysis'',
        rr_target_user = None, rr_is_active = True\<rparr>,
      \<lparr>rr_id = ''rule_1'', rr_priority = 5, rr_condition_type = ''phone_pattern'',
        rr_condition_value = ''SALES'', rr_target_department = ''sales'',
        rr_target_user = None, rr_is_active = True\<rparr>]"
  by (simp add: fetch_rules_def sample_rules_def add_routing_rule_def empty_store_def
      order_by_def rule_order_def)

text \<open>
  C3. The rows the loop runs over are exactly the active rules (each as often as it is
  stored), in ascending priority. The result is the target of the first row at which the
  loop returns, whatever rows follow it, and \<open>(None, None)\<close> when it returns at no row.
  At a \<open>phone_pattern\<close> row the loop returns exactly when the condition value is a
  substring of \<open>from_number\<close> or of \<open>to_number\<close>.
\<close>

theorem apply_routing_rules_first_match:
  "(\<forall>r. count_list (fetch_rules s) r =
          (if rr_is_active r then count_list (routing_rules s) r else 0)) \<and>
   sorted_wrt (\<lambda>a b. rr_priority a \<le> rr_priority b) (fetch_rules s) \<and>
   (\<forall>pre r post.
      fetch_rules s = pre @ r # post \<and> (\<forall>q \<in> set pre. \<not> rule_matches q from_number to_number) \<and>
      rule_matches r from_number to_number \<longrightarrow>
        apply_routing_rules s from_number to_number message_type =
          (Some (rr_target_department r), rr_target_user r) \<and>
        rules_loop (pre @ r # post) from_number to_number =
          rules_loop (pre @ [r]) from_number to_number) \<and>
   ((\<forall>q \<in> set (fetch_rules s). \<not> rule_matches q from_number to_number) \<longrightarrow>
      apply_routing_rules s from_number to_number message_type = (None, None)) \<and>
   (\<forall>r. rr_condition_type r = ''phone_pattern'' \<longrightarrow>
      rule_matches r from_number to_number =
        ((\<exists>a b. from_number = a @ rr_condition_value r @ b) \<or>
         (\<exists>a b. to_number = a @ rr_condition_value r @ b)))"
proof (intro conjI allI impI)
  fix r
  show "count_list (fetch_rules s) r =
          (if rr_is_active r then count_list (routing_rules s) r else 0)"
    by (simp only: fetch_rules_def count_order_by count_filter)
next
  show "sorted_wrt (\<lambda>a b. rr_priority a \<le> rr_priority b) (fetch_rules s)"
    using sorted_order_by [OF total_preorder_rule_order]
    by (simp add: fetch_rules_def rule_order_def [abs_def])
next
  fix pre r post
  assume h: "fetch_rules s = pre @ r # post \<and>
      (\<forall>q \<in> set pre. \<not> rule_matches q from_number to_number) \<and>
      rule_matches r from_number to_number"
  then show "apply_routing_rules s from_number to_number message_type =
      (Some (rr_target_department r), rr_target_user r)"
    using rules_loop_first_match [of pre from_number to_number r post]
    by (simp add: apply_routing_rules_def)
  from h have "rule_matches r from_number to_number" by blast
  then show "rules_loop (pre @ r # post) from_number to_number =
      rules_loop (pre @ [r]) from_number to_number"
    by (rule rules_loop_ignores_rest)
next
  assume "\<forall>q \<in> set (fetch_rules s). \<not> rule_matches q from_number to_number"
  then show "apply_routing_rules s from_number to_number message_type = (None, None)"
    by (simp add: apply_routing_rules_def rules_loop_no_match)
next
  fix r :: routing_rule
  assume "rr_condition_type r = ''phone_pattern''"
  then show "rule_matches r from_number to_number =
      ((\<exists>a b. from_number = a @ rr_condition_value r @ b) \<or>
       (\<exists>a b. to_number = a @ rr_condition_value r @ b))"
    by (simp add: rule_matches_def py_in_iff)
qed

text \<open>
  On the two sample rules, a call to \<open>+1-555-CREDIT-SALES-01\<close> matches both patterns and
  goes to \<open>credit_analysis\<close>, the rule of priority 1; a call that matches neither pattern
  gets \<open>(None, None)\<close>.
\<close>

theorem apply_routing_rules_first_match_witness:
  "apply_routing_rules sample_rules ''+1-555-123-4567'' ''+1-555-CREDIT-SALES-01'' ''call'' =
     (Some ''credit_analysis'', None) \<and>
   apply_routing_rules sample_rules ''+1-555-123-4567'' ''+1-555-000-0000'' ''call'' =
     (None, None)"
proof -
  define credit where "credit =
     \<lparr>rr_id = ''rule_2'', rr_priority = 1, rr_condition_type = ''phone_pattern'',
       rr_condition_value = ''CREDIT'', rr_target_department = ''credit_analysis'',
       rr_target_user = None, rr_is_active = True\<rparr>"
  define sales where "sales =
     \<lparr>rr_id = ''rule_1'', rr_priority = 5, rr_condition_type = ''phone_pattern'',
       rr_condition_value = ''SALES'', rr_target_department = ''sales'',
       rr_target_user = None, rr_is_active = True\<rparr>"
  have rows: "fetch_rules sample_rules = [] @ credit # [sales]"
    by (simp add: rules_sample credit_def sales_def)
  have hit: "rule_matches credit ''+1-555-123-4567'' ''+1-555-CREDIT-SALES-01''"
    by (simp add: rule_matches_def credit_def)
  have miss: "\<forall>q \<in> set (fetch_rules sample_rules).
      \<not> rule_matches q ''+1-555-123-4567'' ''+1-555-000-0000''"
    by (simp add: rules_sample rule_matches_def)
  have none_before: "\<forall>q \<in> set []. \<not> rule_matches q ''+1-555-123-4567'' ''+1-555-CREDIT-SALES-01''"
    by simp
  from apply_routing_rules_first_match
         [of sample_rules "''+1-555-123-4567''" "''+1-555-CREDIT-SALES-01''" "''call''"]
       rows hit none_before
  have "apply_routing_rules sample_rules ''+1-555-123-4567'' ''+1-555-CREDIT-SALES-01'' ''call'' =
     (Some (rr_target_department credit), rr_target_user credit)"
    by blast
  moreover from apply_routing_rules_first_match
         [of sample_rules "''+1-555-123-4567''" "''+1-555-000-0000''" "''call''"] miss
  have "apply_routing_rules sample_rules ''+1-555-123-4567'' ''+1-555-000-0000'' ''call'' =
     (None, None)"
    by blast
  ultimately show ?thesis by (simp add: credit_def)
qed

subsection \<open>The phone registry\<close>

lemma department_head:
  assumes "fetchone (department_phones s dept priority_min) = Some r"
  shows "r \<in> set (phone_numbers s) \<and> p_department_id r = dept \<and> eligible priority_min r \<and>
         (\<forall>q \<in> set (phone_numbers s).
            p_department_id q = dept \<and> eligible priority_min q \<longrightarrow> phone_order r q)"
  using fetchone_order_by_least [OF total_preorder_phone_order assms [unfolded department_phones_def]]
  by auto

lemma general_head:
  assumes "fetchone (general_phones s priority_min) = Some r"
  shows "r \<in> set (phone_numbers s) \<and> is_general r \<and> eligible priority_min r \<and>
         (\<forall>q \<in> set (phone_numbers s).
            is_general q \<and> eligible priority_min q \<longrightarrow> phone_order r q)"
  using fetchone_order_by_least [OF total_preorder_phone_order assms [unfolded general_phones_def]]
  by auto

lemma department_none:
  "fetchone (department_phones s dept priority_min) = None \<longleftrightarrow>
     \<not> (\<exists>q \<in> set (phone_numbers s). p_department_id q = dept \<and> eligible priority_min q)"
  by (simp add: department_phones_def fetchone_None_iff order_by_Nil_iff filter_empty_conv)

lemma general_none:
  "fetchone (general_phones s priority_min) = None \<longleftrightarrow>
     \<not> (\<exists>q \<in> set (phone_numbers s). is_general q \<and> eligible priority_min q)"
  by (simp add: general_phones_def fetchone_None_iff order_by_Nil_iff filter_empty_conv)

lemma get_available_phone_department:
  assumes "truthy dept"
    and "\<exists>q \<in> set (phone_numbers s). p_department_id q = dept \<and> eligible priority_min q"
  shows "get_available_phone s dept priority_min =
           map_option p_phone_number (fetchone (department_phones s dept priority_min))"
proof -
  from assms(2) obtain r where "fetchone (department_phones s dept priority_min) = Some r"
    using department_none [of s dept priority_min] by (cases "fetchone (department_phones s dept priority_min)") auto
  with assms(1) show ?thesis by (simp add: get_available_phone_def)
qed

lemma get_available_phone_general:
  assumes "\<not> (truthy dept \<and>
      (\<exists>q \<in> set (phone_numbers s). p_department_id q = dept \<and> eligible priority_min q))"
  shows "get_available_phone s dept priority_min =
           map_option p_phone_number (fetchone (general_phones s priority_min))"
proof -
  have "(if truthy dept then fetchone (department_phones s dept priority_min) else None) = None"
    using assms department_none [of s dept priority_min] by auto
  then show ?thesis
    by (simp add: get_available_phone_def split: option.splits)
qed

lemma phones_sample:
  "phone_numbers sample_phones =
     [\<lparr>p_id = ''phone_1'', p_phone_number = ''+1-555-SALES-01'', p_department_id = Some ''sales'',
        p_user_id = None, p_status = ''available'', p_type = ''business'', p_priority = 10,
        p_max_concurrent_calls = 1, p_current_calls = 0\<rparr>,
      \<lparr>p_id = ''phone_2'', p_phone_number = ''+1-555-SALES-02'', p_department_id = Some ''sales'',
        p_user_id = None, p_status = ''available'', p_type = ''business'', p_priority = 5,
        p_max_concurrent_calls = 1, p_current_calls = 0\<rparr>,
      \<lparr>p_id = ''phone_3'', p_phone_number = ''+1-555-CREDIT-01'',
        p_department_id = Some ''credit_analysis'', p_user_id = None, p_status = ''available'',
        p_type = ''business'', p_priority = 10, p_max_concurrent_calls = 1,
        p_current_calls = 0\<rparr>]"
  by (simp add: sample_phones_def run_def register_phone_number_def update_phone_stats_def
      insert_or_ignore_stat_def empty_store_def)

lemma sample_sales_line:
  "get_available_phone sample_phones (Some ''sales'') 1 = Some ''+1-555-SALES-01''"
  by (simp add: get_available_phone_def department_phones_def general_phones_def phones_sample
      truthy_def eligible_def is_general_def order_by_def phone_order_def fetchone_def)

text \<open>
  C4. A returned number belongs to a row with status \<open>available\<close>,
  \<open>current_calls < max_concurrent_calls\<close> and \<open>priority >= priority_min\<close>. If a department
  is given (not \<open>None\<close>, not empty) and has such a row, the row is of that department and
  no such row of the department has a higher priority, nor the same priority with fewer
  current calls. Otherwise the row is unassigned or of department \<open>general\<close>, with the same
  choice among those. The result is \<open>None\<close> exactly when neither pool has such a row; the
  function has no raising branch.
\<close>

theorem get_available_phone_selection:
  "(\<forall>n. get_available_phone s dept priority_min = Some n \<longrightarrow>
      (\<exists>r \<in> set (phone_numbers s).
         p_phone_number r = n \<and> p_status r = ''available'' \<and>
         p_current_calls r < p_max_concurrent_calls r \<and> priority_min \<le> p_priority r \<and>
         (if truthy dept \<and>
             (\<exists>q \<in> set (phone_numbers s). p_department_id q = dept \<and> eligible priority_min q)
          then p_department_id r = dept \<and>
               (\<forall>q \<in> set (phone_numbers s).
                  p_department_id q = dept \<and> eligible priority_min q \<longrightarrow>
                    p_priority q < p_priority r \<or>
                    (p_priority q = p_priority r \<and> p_current_calls r \<le> p_current_calls q))
          else (p_department_id r = None \<or> p_department_id r = Some ''general'') \<and>
               (\<forall>q \<in> set (phone_numbers s).
                  is_general q \<and> eligible priority_min q \<longrightarrow>
                    p_priority q < p_priority r \<or>
                    (p_priority q = p_priority r \<and> p_current_calls r \<le> p_current_calls q))))) \<and>
   (get_available_phone s dept priority_min = None \<longleftrightarrow>
      \<not> (truthy dept \<and>
          (\<exists>q \<in> set (phone_numbers s). p_department_id q = dept \<and> eligible priority_min q)) \<and>
      \<not> (\<exists>q \<in> set (phone_numbers s). is_general q \<and> eligible priority_min q))"
proof (cases "truthy dept \<and>
    (\<exists>q \<in> set (phone_numbers s). p_department_id q = dept \<and> eligible priority_min q)")
  case True
  then have eq: "get_available_phone s dept priority_min =
      map_option p_phone_number (fetchone (department_phones s dept priority_min))"
    using get_available_phone_department [of dept s priority_min] by blast
  have some: "\<exists>r \<in> set (phone_numbers s).
         p_phone_number r = n \<and> p_status r = ''available'' \<and>
         p_current_calls r < p_max_concurrent_calls r \<and> priority_min \<le> p_priority r \<and>
         p_department_id r = dept \<and>
         (\<forall>q \<in> set (phone_numbers s).
            p_department_id q = dept \<and> eligible priority_min q \<longrightarrow>
              p_priority q < p_priority r \<or>
              (p_priority q = p_priority r \<and> p_current_calls r \<le> p_current_calls q))"
    if "get_available_phone s dept priority_min = Some n" for n
  proof -
    from that eq obtain r where r: "fetchone (department_phones s dept priority_min) = Some r"
      and n: "p_phone_number r = n" by auto
    from department_head [OF r] n show ?thesis
      unfolding eligible_def phone_order_def by (intro bexI [of _ r]) auto
  qed
  have "get_available_phone s dept priority_min \<noteq> None"
    using eq True department_none [of s dept priority_min] by auto
  with True some show ?thesis by auto
next
  case False
  then have eq: "get_available_phone s dept priority_min =
      map_option p_phone_number (fetchone (general_phones s priority_min))"
    by (rule get_available_phone_general)
  have some: "\<exists>r \<in> set (phone_numbers s).
         p_phone_number r = n \<and> p_status r = ''available'' \<and>
         p_current_calls r < p_max_concurrent_calls r \<and> priority_min \<le> p_priority r \<and>
         (p_department_id r = None \<or> p_department_id r = Some ''general'') \<and>
         (\<forall>q \<in> set (phone_numbers s).
            is_general q \<and> eligible priority_min q \<longrightarrow>
              p_priority q < p_priority r \<or>
              (p_priority q = p_priority r \<and> p_current_calls r \<le> p_current_calls q))"
    if "get_available_phone s dept priority_min = Some n" for n
  proof -
    from that eq obtain r where r: "fetchone (general_phones s priority_min) = Some r"
      and n: "p_phone_number r = n" by auto
    from general_head [OF r] n show ?thesis
      unfolding eligible_def phone_order_def is_general_def by (intro bexI [of _ r]) auto
  qed
  have none: "get_available_phone s dept priority_min = None \<longleftrightarrow>
      \<not> (\<exists>q \<in> set (phone_numbers s). is_general q \<and> eligible priority_min q)"
    using eq general_none [of s priority_min] by simp
  show ?thesis
  proof (intro conjI allI impI)
    fix n
    assume "get_available_phone s dept priority_min = Some n"
    from some [OF this] False
    show "\<exists>r \<in> set (phone_numbers s).
         p_phone_number r = n \<and> p_status r = ''available'' \<and>
         p_current_calls r < p_max_concurrent_calls r \<and> priority_min \<le> p_priority r \<and>
         (if truthy dept \<and>
             (\<exists>q \<in> set (phone_numbers s). p_department_id q = dept \<and> eligible priority_min q)
          then p_department_id r = dept \<and>
               (\<forall>q \<in> set (phone_numbers s).
                  p_department_id q = dept \<and> eligible priority_min q \<longrightarrow>
                    p_priority q < p_priority r \<or>
                    (p_priority q = p_priority r \<and> p_current_calls r \<le> p_current_calls q))
          else (p_department_id r = None \<or> p_department_id r = Some ''general'') \<and>
               (\<forall>q \<in> set (phone_numbers s).
                  is_general q \<and> eligible priority_min q \<longrightarrow>
                    p_priority q < p_priority r \<or>
                    (p_priority q = p_priority r \<and> p_current_calls r \<le> p_current_calls q)))"
      by (simp only: if_False)
  next
    from none False
    show "get_available_phone s dept priority_min = None \<longleftrightarrow>
      \<not> (truthy dept \<and>
          (\<exists>q \<in> set (phone_numbers s). p_department_id q = dept \<and> eligible priority_min q)) \<and>
      \<not> (\<exists>q \<in> set (phone_numbers s). is_general q \<and> eligible priority_min q)"
      by blast
  qed
qed

text \<open>
  On the sample numbers: \<open>sales\<close> gets its line of priority 10, and \<open>customer_service\<close>,
  which has no number while no number is general, gets \<open>None\<close>.
\<close>

theorem get_available_phone_selection_witness:
  "get_available_phone sample_phones (Some ''sales'') 1 = Some ''+1-555-SALES-01'' \<and>
   (\<exists>r \<in> set (phone_numbers sample_phones).
      p_phone_number r = ''+1-555-SALES-01'' \<and> p_status r = ''available'' \<and>
      p_current_calls r < p_max_concurrent_calls r \<and> 1 \<le> p_priority r) \<and>
   get_available_phone sample_phones (Some ''customer_service'') 1 = None"
proof -
  have none_dept: "\<not> (truthy (Some ''customer_service'') \<and>
      (\<exists>q \<in> set (phone_numbers sample_phones).
         p_department_id q = Some ''customer_service'' \<and> eligible 1 q))"
    by (simp add: phones_sample)
  have none_general: "\<not> (\<exists>q \<in> set (phone_numbers sample_phones). is_general q \<and> eligible 1 q)"
    by (simp add: phones_sample is_general_def)
  from get_available_phone_selection [of sample_phones "Some ''customer_service''" 1]
       none_dept none_general
  have "get_available_phone sample_phones (Some ''customer_service'') 1 = None"
    by blast
  moreover from get_available_phone_selection [of sample_phones "Some ''sales''" 1]
       sample_sales_line
  have "\<exists>r \<in> set (phone_numbers sample_phones).
      p_phone_number r = ''+1-555-SALES-01'' \<and> p_status r = ''available'' \<and>
      p_current_calls r < p_max_concurrent_calls r \<and> 1 \<le> p_priority r"
    by blast
  ultimately show ?thesis using sample_sales_line by blast
qed

text \<open>
  C5. If a row of \<open>phone_numbers\<close> carries the number, \<open>register_phone_number\<close> returns the
  "already registered" message and the store it was given: no phone row and no
  statistics row is added.
\<close>

theorem register_phone_number_duplicate:
  assumes "p \<in> set (phone_numbers s)" and "p_phone_number p = phone_number"
  shows "register_phone_number s phone_id phone_number dept user_id phone_type prio
           max_concurrent today = (AlreadyRegistered phone_number, s)"
proof -
  from assms have "list_ex (\<lambda>p. p_id p = phone_id \<or> p_phone_number p = phone_number)
      (phone_numbers s)"
    unfolding list_ex_iff by blast
  then show ?thesis by (simp add: register_phone_number_def)
qed

text \<open>Registering \<open>+1-555-SALES-01\<close> again on the sample numbers, under a new id.\<close>

theorem register_phone_number_duplicate_witness:
  "register_phone_number sample_phones ''phone_9'' ''+1-555-SALES-01'' (Some ''sales'') None
     ''business'' 10 1 ''2024-05-02'' = (AlreadyRegistered ''+1-555-SALES-01'', sample_phones)"
proof -
  define line where "line =
     \<lparr>p_id = ''phone_1'', p_phone_number = ''+1-555-SALES-01'', p_department_id = Some ''sales'',
       p_user_id = None, p_status = ''available'', p_type = ''business'', p_priority = 10,
       p_max_concurrent_calls = 1, p_current_calls = 0\<rparr>"
  have "line \<in> set (phone_numbers sample_phones)"
    by (simp add: phones_sample line_def)
  moreover have "p_phone_number line = ''+1-555-SALES-01''"
    by (simp add: line_def)
  ultimately show ?thesis by (rule register_phone_number_duplicate)
qed

subsection \<open>Ending a call\<close>









subsection \<open>The call counters over sequences of operations\<close>

lemma phone_numbers_insert_or_ignore_stat [simp]:
  "phone_numbers (insert_or_ignore_stat s phone_number today) = phone_numbers s"
  by (simp add: insert_or_ignore_stat_def)

lemma phone_numbers_bump_total_calls [simp]:
  "phone_numbers (bump_total_calls s phone_number today) = phone_numbers s"
  by (simp add: bump_total_calls_def)

lemma phone_numbers_bump_total_sms [simp]:
  "phone_numbers (bump_total_sms s phone_number today) = phone_numbers s"
  by (simp add: bump_total_sms_def)

lemma phone_numbers_increment_phone_usage:
  "phone_numbers (increment_phone_usage s phone_number usage_type today) =
     (if usage_type = ''call''
      then map (\<lambda>p. if p_phone_number p = phone_number
                    then p\<lparr>p_current_calls := p_current_calls p + 1\<rparr> else p)
             (phone_numbers s)
      else phone_numbers s)"
  by (simp add: increment_phone_usage_def Let_def bump_current_calls_def)

lemma phone_numbers_register:
  "phone_numbers (snd (register_phone_number s phone_id phone_number dept user_id phone_type
       prio max_concurrent today)) =
     (if list_ex (\<lambda>p. p_id p = phone_id \<or> p_phone_number p = phone_number) (phone_numbers s)
      then phone_numbers s
      else phone_numbers s @
        [\<lparr>p_id = phone_id, p_phone_number = phone_number, p_department_id = dept,
          p_user_id = user_id, p_status = ''available'', p_type = phone_type,
          p_priority = prio, p_max_concurrent_calls = max_concurrent, p_current_calls = 0\<rparr>])"
  by (simp add: register_phone_number_def update_phone_stats_def)

text \<open>
  \<open>route_incoming_call\<close> always raises: on a used route id at its \<open>INSERT\<close>, otherwise in
  \<open>increment_phone_usage\<close>, whose first write meets the caller's open transaction.
\<close>

lemma route_incoming_call_raises:
  "route_incoming_call s route_id timestamp today from_number to_number hint =
     Inl (if route_id \<in> set (map cr_id (call_routing s)) then IntegrityError
          else OperationalError)"
  by (simp add: route_incoming_call_def Let_def increment_phone_usage_during_def
      split: prod.splits)

lemma apply_operation_Route:
  "apply_operation s (Route route_id timestamp today from_number to_number hint) = s"
  by (simp add: route_incoming_call_raises)

lemma phone_numbers_end_call:
  "phone_numbers (end_call s route_id d today) =
     (case routed_number_of s route_id of
        None \<Rightarrow> phone_numbers s
      | Some routed_phone \<Rightarrow>
          map (\<lambda>p. if Some (p_phone_number p) = routed_phone
                   then p\<lparr>p_current_calls := max 0 (p_current_calls p - 1)\<rparr> else p)
            (phone_numbers s))"
  by (simp add: end_call_def split: option.splits)

lemma apply_operation_nonnegative:
  assumes "\<forall>p \<in> set (phone_numbers s). 0 \<le> p_current_calls p"
  shows "\<forall>p \<in> set (phone_numbers (apply_operation s op)). 0 \<le> p_current_calls p"
proof (cases op)
  case (Register phone_id phone_number dept user_id phone_type prio max_concurrent today)
  with assms show ?thesis by (auto simp: phone_numbers_register)
next
  case (Route route_id timestamp today from_number to_number hint)
  with assms show ?thesis by (simp only: apply_operation_Route)
next
  case (Increment phone_number usage_type today)
  with assms show ?thesis by (auto simp: phone_numbers_increment_phone_usage)
next
  case (EndCall route_id d today)
  with assms show ?thesis by (auto simp: phone_numbers_end_call split: option.splits)
qed

lemma run_snoc: "run (ops @ [op]) = apply_operation (run ops) op"
  by (simp add: run_def)

lemma run_nonnegative: "\<forall>p \<in> set (phone_numbers (run ops)). 0 \<le> p_current_calls p"
proof (induction ops rule: rev_induct)
  case Nil
  show ?case by (simp add: run_def empty_store_def)
next
  case (snoc op ops)
  then show ?case unfolding run_snoc by (rule apply_operation_nonnegative)
qed

lemma end_call_keeps_capacity:
  assumes "\<forall>p \<in> set (phone_numbers s). 0 \<le> p_current_calls p"
    and "\<forall>p \<in> set (phone_numbers s). p_current_calls p \<le> p_max_concurrent_calls p"
  shows "\<forall>p \<in> set (phone_numbers (end_call s route_id d today)).
           p_current_calls p \<le> p_max_concurrent_calls p"
  using assms by (fastforce simp: phone_numbers_end_call split: option.splits)

lemma register_keeps_capacity:
  assumes "\<forall>p \<in> set (phone_numbers s). p_current_calls p \<le> p_max_concurrent_calls p"
    and "0 \<le> max_concurrent"
  shows "\<forall>p \<in> set (phone_numbers (snd (register_phone_number s phone_id phone_number dept
             user_id phone_type prio max_concurrent today))).
           p_current_calls p \<le> p_max_concurrent_calls p"
  using assms by (auto simp: phone_numbers_register)

lemma run_two_increments:
  "map (\<lambda>p. (p_current_calls p, p_max_concurrent_calls p)) (phone_numbers (run two_increments)) =
     [(2, 1)]"
  by (simp add: two_increments_def run_def phone_numbers_register
      phone_numbers_increment_phone_usage empty_store_def)

text \<open>
  C1, as the code has it. From the empty store, after any sequence of
  \<open>register_phone_number\<close>, \<open>route_incoming_call\<close>, \<open>increment_phone_usage\<close> and
  \<open>end_call\<close>, every registered number has \<open>0 <= current_calls\<close>. The bound
  \<open>current_calls <= max_concurrent_calls\<close> is not an invariant, since
  \<open>increment_phone_usage\<close> adds a call without looking at the capacity; where it holds
  in a reached state, it still holds after \<open>end_call\<close> and after a registration with a
  capacity that is not negative.
\<close>

theorem current_calls_bounds:
  "(\<forall>p \<in> set (phone_numbers (run ops)). 0 \<le> p_current_calls p) \<and>
   ((\<forall>p \<in> set (phone_numbers (run ops)). p_current_calls p \<le> p_max_concurrent_calls p) \<longrightarrow>
      (\<forall>route_id duration_seconds today.
         \<forall>p \<in> set (phone_numbers (end_call (run ops) route_id duration_seconds today)).
           p_current_calls p \<le> p_max_concurrent_calls p) \<and>
      (\<forall>phone_id phone_number dept user_id phone_type prio max_concurrent today.
         0 \<le> max_concurrent \<longrightarrow>
           (\<forall>p \<in> set (phone_numbers (snd (register_phone_number (run ops) phone_id phone_number
                   dept user_id phone_type prio max_concurrent today))).
              p_current_calls p \<le> p_max_concurrent_calls p)))"
proof (intro conjI impI allI)
  show "\<forall>p \<in> set (phone_numbers (run ops)). 0 \<le> p_current_calls p"
    by (rule run_nonnegative)
next
  fix route_id duration_seconds today
  assume "\<forall>p \<in> set (phone_numbers (run ops)). p_current_calls p \<le> p_max_concurrent_calls p"
  then show "\<forall>p \<in> set (phone_numbers (end_call (run ops) route_id duration_seconds today)).
      p_current_calls p \<le> p_max_concurrent_calls p"
    by (rule end_call_keeps_capacity [OF run_nonnegative])
next
  fix phone_id phone_number dept user_id phone_type prio max_concurrent today
  assume "\<forall>p \<in> set (phone_numbers (run ops)). p_current_calls p \<le> p_max_concurrent_calls p"
    and "0 \<le> (max_concurrent :: int)"
  then show "\<forall>p \<in> set (phone_numbers (snd (register_phone_number (run ops) phone_id
        phone_number dept user_id phone_type prio max_concurrent today))).
      p_current_calls p \<le> p_max_concurrent_calls p"
    by (rule register_keeps_capacity)
qed

text \<open>
  The counters are not negative after the two increments on one line; the three sample
  numbers are within their capacity, and still are after a fourth number of capacity 2
  is registered.
\<close>

theorem current_calls_bounds_witness:
  "list_all (\<lambda>p. 0 \<le> p_current_calls p) (phone_numbers (run two_increments)) \<and>
   list_all (\<lambda>p. p_current_calls p \<le> p_max_concurrent_calls p) (phone_numbers sample_phones) \<and>
   (0::int) \<le> 2 \<and>
   list_all (\<lambda>p. p_current_calls p \<le> p_max_concurrent_calls p)
     (phone_numbers (snd (register_phone_number sample_phones ''phone_4'' ''+1-555-SUPPORT-01''
        (Some ''customer_service'') None ''business'' 5 2 ''2024-05-02'')))"
proof -
  note bounds = current_calls_bounds
    [where ops = "[Register ''phone_1'' ''+1-555-SALES-01'' (Some ''sales'') None ''business''
                     10 1 ''2024-05-01'',
                   Register ''phone_2'' ''+1-555-SALES-02'' (Some ''sales'') None ''business''
                     5 1 ''2024-05-01'',
                   Register ''phone_3'' ''+1-555-CREDIT-01'' (Some ''credit_analysis'') None
                     ''business'' 10 1 ''2024-05-01'']",
     folded sample_phones_def]
  have within: "\<forall>p \<in> set (phone_numbers sample_phones).
      p_current_calls p \<le> p_max_concurrent_calls p"
    by (simp add: phones_sample)
  have capacity: "(0::int) \<le> 2" by simp
  note after_register =
    bounds [THEN conjunct2, THEN mp, OF within, THEN conjunct2, rule_format, OF capacity]
  have "\<forall>p \<in> set (phone_numbers (snd (register_phone_number sample_phones ''phone_4''
        ''+1-555-SUPPORT-01'' (Some ''customer_service'') None ''business'' 5 2 ''2024-05-02''))).
      p_current_calls p \<le> p_max_concurrent_calls p"
    using after_register by (intro ballI)
  moreover have "\<forall>p \<in> set (phone_numbers (run two_increments)). 0 \<le> p_current_calls p"
    by (rule current_calls_bounds [of two_increments, THEN conjunct1])
  ultimately show ?thesis using within by (simp add: list_all_iff)
qed

text \<open>
  C1 as the specification words it fails, with no concurrency at all. One line of
  capacity 1 is registered; after two calls of \<open>increment_phone_usage\<close> for it with
  usage type \<open>call\<close>, its \<open>current_calls\<close> is 2.
\<close>

theorem current_calls_upper_bound_counterexample:
  "map (\<lambda>p. (p_current_calls p, p_max_concurrent_calls p)) (phone_numbers (run two_increments)) =
     [(2, 1)] \<and>
   \<not> (\<forall>p \<in> set (phone_numbers (run two_increments)).
         0 \<le> p_current_calls p \<and> p_current_calls p \<le> p_max_concurrent_calls p)"
proof -
  have "\<not> (\<forall>p \<in> set rows. 0 \<le> p_current_calls p \<and> p_current_calls p \<le> p_max_concurrent_calls p)"
    if "map (\<lambda>p. (p_current_calls p, p_max_concurrent_calls p)) rows = [(2, 1)]"
    for rows :: "phone list"
    using that by (cases rows) auto
  from this [OF run_two_increments] run_two_increments
  show ?thesis by (intro conjI)
qed

subsection \<open>Classifying an inbound event\<close>

lemma find_available_user_none:
  "find_available_user s dept preferred = None \<longleftrightarrow>
     \<not> (\<exists>u \<in> set (users s). available_in dept u)"
proof (cases "truthy preferred \<and>
    (\<exists>u \<in> set (users s). Some (u_id u) = preferred \<and> available_in dept u)")
  case True
  then have "find_available_user s dept preferred = preferred"
    by (simp only: find_available_user_cases simp_thms if_True)
  with True show ?thesis by (auto simp: truthy_def)
next
  case False
  then have "find_available_user s dept preferred =
      map_option u_id (fetchone (order_by user_order (filter (available_in dept) (users s))))"
    by (simp only: find_available_user_cases if_False)
  then show ?thesis using fallback_none [of dept s] by simp
qed

lemma communications_update_user_status [simp]:
  "communications (update_user_status s user_id new_status) = communications s"
  by (simp add: update_user_status_def)

lemma communications_route_communication [simp]:
  "communications (route_communication s comm_id user_id dept msg_type content) =
     communications s"
  by (simp add: route_communication_def)

text \<open>
  C6. Given the fresh identifier that \<open>uuid4\<close> supplies, \<open>classify_incoming_communication\<close>
  returns a result for every event and every store, and the table \<open>communications\<close>
  afterwards is the one before followed by exactly one row: the event with the assigned
  user and the department of the result. The assigned user is \<open>None\<close> exactly when the
  department of the result has no available user.
\<close>

theorem classify_incoming_communication_logs:
  assumes "comm_id \<notin> set (map c_id (communications s))"
  shows "\<exists>res s'.
           classify_incoming_communication s comm_id timestamp from_number to_number
             message_type content = Inr (res, s') \<and>
           communication_id res = comm_id \<and>
           communications s' = communications s @
             [\<lparr>c_id = comm_id, c_timestamp = timestamp, c_from_number = from_number,
               c_to_number = to_number, c_user_id = assigned_user res,
               c_department_id = department_of res, c_type = message_type,
               c_content = content, c_status = ''active'', c_duration = None\<rparr>] \<and>
           (assigned_user res = None \<longleftrightarrow>
              \<not> (\<exists>u \<in> set (users s).
                    Some (u_department u) = department_of res \<and> u_status u = ''available''))"
proof -
  obtain rule_dept rule_user
    where rules: "apply_routing_rules s from_number to_number message_type =
      (rule_dept, rule_user)"
    by (cases "apply_routing_rules s from_number to_number message_type")
  obtain target_dept target_user
    where target: "(if \<not> truthy rule_dept
        then default_classification s from_number to_number content
        else (rule_dept, rule_user)) = (target_dept, target_user)"
    by (cases "if \<not> truthy rule_dept
        then default_classification s from_number to_number content
        else (rule_dept, rule_user)")
  let ?assigned = "find_available_user s target_dept target_user"
  let ?res = "\<lparr>communication_id = comm_id, assigned_user = ?assigned,
      department_of = target_dept,
      routing_method = (if truthy target_dept then ''rules'' else ''default'')\<rparr>"
  let ?row = "\<lparr>c_id = comm_id, c_timestamp = timestamp, c_from_number = from_number,
      c_to_number = to_number, c_user_id = ?assigned, c_department_id = target_dept,
      c_type = message_type, c_content = content, c_status = ''active'', c_duration = None\<rparr>"
  let ?s1 = "s\<lparr>communications := communications s @ [?row]\<rparr>"
  let ?s' = "route_communication ?s1 comm_id ?assigned target_dept message_type content"
  have created: "create_communication_record s comm_id timestamp from_number to_number
      ?assigned target_dept message_type content = Inr ?s1"
    using assms by (simp add: create_communication_record_def)
  have "classify_incoming_communication s comm_id timestamp from_number to_number
      message_type content = Inr (?res, ?s')"
    unfolding classify_incoming_communication_def rules
    by (simp only: Let_def prod.case target created sum.case)
  moreover have "communications ?s' = communications s @ [?row]"
    by simp
  moreover have "?assigned = None \<longleftrightarrow>
      \<not> (\<exists>u \<in> set (users s). Some (u_department u) = target_dept \<and> u_status u = ''available'')"
    using find_available_user_none [of s target_dept target_user]
    by (simp add: available_in_def)
  ultimately show ?thesis by (intro exI [of _ ?res] exI [of _ ?s']) simp
qed

lemma routing_rules_create_department [simp]:
  "routing_rules (create_department s dept_id name lead phones) = routing_rules s"
  by (simp add: create_department_def)

lemma communications_create_department [simp]:
  "communications (create_department s dept_id name lead phones) = communications s"
  by (simp add: create_department_def)

lemma routing_rules_add_user [simp]:
  "routing_rules (add_user s user_id name dept phone_number role) = routing_rules s"
  by (simp add: add_user_def update_department_membership_def split: option.splits)

lemma communications_add_user [simp]:
  "communications (add_user s user_id name dept phone_number role) = communications s"
  by (simp add: add_user_def update_department_membership_def split: option.splits)

lemma busy_team_tables:
  "routing_rules busy_team = []" "communications busy_team = []"
  "users busy_team =
     [\<lparr>u_id = ''user_001'', u_name = ''Alice Johnson'', u_department = ''sales'',
        u_phone_number = None, u_role = ''lead'', u_status = ''available''\<rparr>,
      \<lparr>u_id = ''user_002'', u_name = ''Bob Smith'', u_department = ''sales'',
        u_phone_number = None, u_role = ''member'', u_status = ''available''\<rparr>,
      \<lparr>u_id = ''user_003'', u_name = ''Carol Davis'', u_department = ''credit_analysis'',
        u_phone_number = None, u_role = ''lead'', u_status = ''busy''\<rparr>,
      \<lparr>u_id = ''user_004'', u_name = ''David Wilson'', u_department = ''vehicle_transport'',
        u_phone_number = None, u_role = ''lead'', u_status = ''available''\<rparr>,
      \<lparr>u_id = ''user_005'', u_name = ''Eve Brown'', u_department = ''customer_service'',
        u_phone_number = None, u_role = ''lead'', u_status = ''available''\<rparr>]"
proof -
  show "routing_rules busy_team = []" and "communications busy_team = []"
    by (simp_all add: busy_team_def update_user_status_def sample_team_def
        sample_departments_def empty_store_def)
  show "users busy_team =
     [\<lparr>u_id = ''user_001'', u_name = ''Alice Johnson'', u_department = ''sales'',
        u_phone_number = None, u_role = ''lead'', u_status = ''available''\<rparr>,
      \<lparr>u_id = ''user_002'', u_name = ''Bob Smith'', u_department = ''sales'',
        u_phone_number = None, u_role = ''member'', u_status = ''available''\<rparr>,
      \<lparr>u_id = ''user_003'', u_name = ''Carol Davis'', u_department = ''credit_analysis'',
        u_phone_number = None, u_role = ''lead'', u_status = ''busy''\<rparr>,
      \<lparr>u_id = ''user_004'', u_name = ''David Wilson'', u_department = ''vehicle_transport'',
        u_phone_number = None, u_role = ''lead'', u_status = ''available''\<rparr>,
      \<lparr>u_id = ''user_005'', u_name = ''Eve Brown'', u_department = ''customer_service'',
        u_phone_number = None, u_role = ''lead'', u_status = ''available''\<rparr>]"
    by (simp add: busy_team_def update_user_status_def users_sample_team)
qed

lemma classify_busy_team:
  "\<exists>s0. classify_incoming_communication busy_team ''comm_1'' ''2024-05-01T10:00:00Z''
       ''+1234567890'' ''555-CREDIT-01'' ''call'' ''credit check'' =
     Inr (\<lparr>communication_id = ''comm_1'', assigned_user = None,
            department_of = Some ''credit_analysis'', routing_method = ''rules''\<rparr>, s0)"
proof -
  have rules: "apply_routing_rules busy_team ''+1234567890'' ''555-CREDIT-01'' ''call'' =
      (None, None)"
    by (simp add: apply_routing_rules_def fetch_rules_def busy_team_tables order_by_def)
  have history: "find_existing_customer busy_team ''+1234567890'' = None"
    by (simp add: find_existing_customer_def customer_groups_def busy_team_tables
        order_by_def fetchone_def)
  have lowered: "py_lower ''credit check'' = ''credit check''"
    by (simp add: py_lower_def ascii_lower_def)
  have dept: "default_classification busy_team ''+1234567890'' ''555-CREDIT-01''
      ''credit check'' = (Some ''credit_analysis'', None)"
    by (simp add: default_classification_def history lowered any_word_in_def)
  have nobody: "find_available_user busy_team (Some ''credit_analysis'') None = None"
    by (simp add: find_available_user_def truthy_def busy_team_tables available_in_def
        order_by_def fetchone_def)
  show ?thesis
    by (simp add: classify_incoming_communication_def rules truthy_def dept nobody
        create_communication_record_def busy_team_tables)
qed

text \<open>
  A call about credit while the only user of \<open>credit_analysis\<close> is busy: the event is
  classified to \<open>credit_analysis\<close>, nobody is assigned, and the one new row of
  \<open>communications\<close> carries no user.
\<close>

theorem classify_incoming_communication_logs_witness:
  "''comm_1'' \<notin> set (map c_id (communications busy_team)) \<and>
   (\<exists>res s'.
      classify_incoming_communication busy_team ''comm_1'' ''2024-05-01T10:00:00Z''
        ''+1234567890'' ''555-CREDIT-01'' ''call'' ''credit check'' = Inr (res, s') \<and>
      department_of res = Some ''credit_analysis'' \<and> assigned_user res = None \<and>
      communications s' =
        [\<lparr>c_id = ''comm_1'', c_timestamp = ''2024-05-01T10:00:00Z'',
          c_from_number = ''+1234567890'', c_to_number = ''555-CREDIT-01'', c_user_id = None,
          c_department_id = Some ''credit_analysis'', c_type = ''call'',
          c_content = ''credit check'', c_status = ''active'', c_duration = None\<rparr>])"
proof -
  have fresh: "''comm_1'' \<notin> set (map c_id (communications busy_team))"
    by (simp add: busy_team_tables)
  from classify_incoming_communication_logs [OF fresh, of "''2024-05-01T10:00:00Z''"
      "''+1234567890''" "''555-CREDIT-01''" "''call''" "''credit check''"]
  obtain res s' where
    result: "classify_incoming_communication busy_team ''comm_1'' ''2024-05-01T10:00:00Z''
        ''+1234567890'' ''555-CREDIT-01'' ''call'' ''credit check'' = Inr (res, s')"
    and logged: "communications s' = communications busy_team @
        [\<lparr>c_id = ''comm_1'', c_timestamp = ''2024-05-01T10:00:00Z'',
          c_from_number = ''+1234567890'', c_to_number = ''555-CREDIT-01'',
          c_user_id = assigned_user res, c_department_id = department_of res,
          c_type = ''call'', c_content = ''credit check'', c_status = ''active'',
          c_duration = None\<rparr>]"
    by blast
  from classify_busy_team result
  have res: "department_of res = Some ''credit_analysis''" "assigned_user res = None"
    by auto
  with logged have "communications s' =
        [\<lparr>c_id = ''comm_1'', c_timestamp = ''2024-05-01T10:00:00Z'',
          c_from_number = ''+1234567890'', c_to_number = ''555-CREDIT-01'', c_user_id = None,
          c_department_id = Some ''credit_analysis'', c_type = ''call'',
          c_content = ''credit check'', c_status = ''active'', c_duration = None\<rparr>]"
    by (simp add: busy_team_tables)
  with fresh result res show ?thesis by blast
qed

end
